theory Spec2Isabelle
  imports Complex_Main
begin

section \<open>JavaScript numbers\<close>

text \<open>
  The program computes with JavaScript numbers. A number is modelled as an exact real
  or one of the three special values of the language: \<open>Infinity\<close>, \<open>-Infinity\<close> and
  \<open>NaN\<close>. Rounding of finite results is not modelled (finite arithmetic is exact),
  and there is a single zero, which behaves as \<open>+0\<close>. The special values are what
  the language produces when a division has a zero divisor, so they are kept.
\<close>

datatype jsnum = Fin real | PInf | NInf | NaN

text \<open>The relational operators \<open><=\<close> and \<open><\<close>: false as soon as an operand is \<open>NaN\<close>.\<close>

fun js_le :: "jsnum \<Rightarrow> jsnum \<Rightarrow> bool" where
  "js_le NaN _ = False"
| "js_le _ NaN = False"
| "js_le (Fin a) (Fin b) = (a \<le> b)"
| "js_le NInf _ = True"
| "js_le _ PInf = True"
| "js_le PInf _ = False"
| "js_le _ NInf = False"

fun js_lt :: "jsnum \<Rightarrow> jsnum \<Rightarrow> bool" where
  "js_lt NaN _ = False"
| "js_lt _ NaN = False"
| "js_lt (Fin a) (Fin b) = (a < b)"
| "js_lt PInf _ = False"
| "js_lt _ NInf = False"
| "js_lt NInf _ = True"
| "js_lt _ PInf = True"

text \<open>The operator \<open>*\<close>: zero times an infinity is \<open>NaN\<close>, otherwise the signs multiply.\<close>

fun js_mul :: "jsnum \<Rightarrow> jsnum \<Rightarrow> jsnum" where
  "js_mul NaN _ = NaN"
| "js_mul _ NaN = NaN"
| "js_mul (Fin a) (Fin b) = Fin (a * b)"
| "js_mul (Fin a) PInf = (if a = 0 then NaN else if 0 < a then PInf else NInf)"
| "js_mul (Fin a) NInf = (if a = 0 then NaN else if 0 < a then NInf else PInf)"
| "js_mul PInf (Fin b) = (if b = 0 then NaN else if 0 < b then PInf else NInf)"
| "js_mul NInf (Fin b) = (if b = 0 then NaN else if 0 < b then NInf else PInf)"
| "js_mul PInf PInf = PInf"
| "js_mul PInf NInf = NInf"
| "js_mul NInf PInf = NInf"
| "js_mul NInf NInf = PInf"

text \<open>
  The operator \<open>/\<close>: \<open>0 / 0\<close> and an infinity over an infinity are \<open>NaN\<close>, a nonzero
  finite number over zero is an infinity of the dividend's sign, a finite number over
  an infinity is zero.
\<close>

fun js_div :: "jsnum \<Rightarrow> jsnum \<Rightarrow> jsnum" where
  "js_div NaN _ = NaN"
| "js_div _ NaN = NaN"
| "js_div (Fin a) (Fin b) =
     (if b = 0 then (if a = 0 then NaN else if 0 < a then PInf else NInf)
      else Fin (a / b))"
| "js_div (Fin a) PInf = Fin 0"
| "js_div (Fin a) NInf = Fin 0"
| "js_div PInf (Fin b) = (if 0 \<le> b then PInf else NInf)"
| "js_div NInf (Fin b) = (if 0 \<le> b then NInf else PInf)"
| "js_div PInf PInf = NaN"
| "js_div PInf NInf = NaN"
| "js_div NInf PInf = NaN"
| "js_div NInf NInf = NaN"

text \<open>\<open>Math.sqrt\<close>: \<open>NaN\<close> on a negative argument.\<close>

fun js_sqrt :: "jsnum \<Rightarrow> jsnum" where
  "js_sqrt (Fin a) = (if a < 0 then NaN else Fin (sqrt a))"
| "js_sqrt PInf = PInf"
| "js_sqrt NInf = NaN"
| "js_sqrt NaN = NaN"

text \<open>
  The operator \<open>===\<close> on numbers (\<open>NaN\<close> is not equal to itself), \<open>isNaN\<close>, and
  \<open>Math.trunc\<close>, \<open>%\<close> and \<open>Math.atan2\<close> on finite operands. The remainder has the
  sign of the dividend; the program only divides by the constant 360. The arc tangent
  of two zeros is zero.
\<close>

definition js_strict_eq :: "jsnum \<Rightarrow> jsnum \<Rightarrow> bool" where
  "js_strict_eq a b = (a \<noteq> NaN \<and> b \<noteq> NaN \<and> a = b)"

definition js_isNaN :: "jsnum \<Rightarrow> bool" where
  "js_isNaN a = (a = NaN)"

definition js_trunc :: "real \<Rightarrow> int" where
  "js_trunc r = (if 0 \<le> r then \<lfloor>r\<rfloor> else \<lceil>r\<rceil>)"

definition js_rem :: "real \<Rightarrow> real \<Rightarrow> real" where
  "js_rem a b = a - b * of_int (js_trunc (a / b))"

definition js_atan2 :: "real \<Rightarrow> real \<Rightarrow> real" where
  "js_atan2 y x =
     (if 0 < x then arctan (y / x)
      else if x < 0 then (if 0 \<le> y then arctan (y / x) + pi else arctan (y / x) - pi)
      else if 0 < y then pi / 2
      else if y < 0 then - pi / 2
      else 0)"

section \<open>Fresnel zone calculation\<close>

definition SPEED_OF_LIGHT :: jsnum where
  "SPEED_OF_LIGHT = Fin 300000000"

text \<open>\<open>calculateMaxFresnelRadius(frequencyHz, distanceMeters)\<close> of \<open>app.js\<close>.\<close>

definition calculateMaxFresnelRadius :: "jsnum \<Rightarrow> jsnum \<Rightarrow> jsnum" where
  "calculateMaxFresnelRadius frequencyHz distanceMeters =
     (if js_le frequencyHz (Fin 0) \<or> js_le distanceMeters (Fin 0) then Fin 0
      else
        let wavelength = js_div SPEED_OF_LIGHT frequencyHz;
            rSquared = js_div (js_mul wavelength distanceMeters) (Fin 4)
        in js_sqrt rSquared)"

text \<open>
  The reference definition, following the words of the specification (section 4.2):
  the wavelength is the speed of light, \<open>3 * 10^8\<close> m/s, over the frequency, and the
  maximal radius is the square root of wavelength times distance over four, or zero
  when either input is not positive.
\<close>

definition wavelength_spec :: "real \<Rightarrow> real" where
  "wavelength_spec frequencyHz = 3 * 10 ^ 8 / frequencyHz"

definition maxFresnelRadius_spec :: "real \<Rightarrow> real \<Rightarrow> real" where
  "maxFresnelRadius_spec frequencyHz distanceMeters =
     (if frequencyHz \<le> 0 \<or> distanceMeters \<le> 0 then 0
      else sqrt (wavelength_spec frequencyHz * distanceMeters / 4))"

section \<open>Data model\<close>

text \<open>
  Identifiers are the template strings \<open>T${n}\<close> of towers and \<open>L${n}\<close> of links, both
  numbered from the one counter \<open>nextId\<close>.
\<close>

datatype ident = TowerId nat | LinkId nat

text \<open>
  Geographic positions and layer points. Coordinates come from the map service, which
  hands out finite numbers, so they are reals.
\<close>

record LatLng =
  lat :: real
  lng :: real

record Point =
  point_x :: real
  point_y :: real

text \<open>
  A tower object: \<open>id\<close>, \<open>latlng\<close>, \<open>frequencyGHz\<close>, and of its \<open>marker\<close> the one
  property the program writes, the border colour of the marker's element.
\<close>

record Tower =
  tower_id :: ident
  latlng :: LatLng
  frequencyGHz :: jsnum
  marker_borderColor :: string

text \<open>
  A link object: \<open>id\<close>, \<open>towerAId\<close>, \<open>towerBId\<close>, and of its \<open>linkLine\<close> the one
  property the program writes, the class name set by \<open>setStyle\<close>.
\<close>

record Link =
  link_id :: ident
  towerAId :: ident
  towerBId :: ident
  linkLine_className :: string

text \<open>
  The global \<open>linkPlanner\<close>. The fields \<open>activeLinkPhase\<close> and \<open>selectedLink\<close> are
  \<open>null\<close> or set; \<open>selectedLink\<close> refers to a link object of \<open>links\<close>, held here by
  its identifier.
\<close>

record LinkPlanner =
  towers :: "Tower list"
  links :: "Link list"
  activeLinkPhase :: "ident option"
  selectedLink :: "ident option"
  nextId :: nat

text \<open>
  The part of the document the program writes: the \<open>svg\<close> elements appended to the
  map container, each with the \<open>ellipse\<close> elements appended to it. An attribute that
  was never set is \<open>None\<close>. The \<open>transform\<close> attribute is the string
  \<open>rotate(angle, cx, cy)\<close>, kept as its three numbers.
\<close>

datatype transform = Rotate jsnum jsnum jsnum

record Ellipse =
  ellipse_id :: string
  attr_cx :: "jsnum option"
  attr_cy :: "jsnum option"
  attr_rx :: "jsnum option"
  attr_ry :: "jsnum option"
  attr_transform :: "transform option"

record SvgOverlay =
  svg_id :: string
  svg_class :: string
  svg_children :: "Ellipse list"
  style_display :: string

record Document =
  map_children :: "SvgOverlay list"

text \<open>
  The map service (Leaflet), an external collaborator, taken as a parameter:
  \<open>map.latLngToLayerPoint\<close>, \<open>map.getPixelOrigin()\<close>, \<open>LatLng.distanceTo\<close> in
  meters and \<open>Point.distanceTo\<close> in pixels. The first two depend on the viewport.
\<close>

record Leaflet =
  latLngToLayerPoint :: "LatLng \<Rightarrow> Point"
  getPixelOrigin :: Point
  latLngDistanceTo :: "LatLng \<Rightarrow> LatLng \<Rightarrow> real"
  pointDistanceTo :: "Point \<Rightarrow> Point \<Rightarrow> real"

text \<open>The whole application state, and the state at page load.\<close>

record App =
  planner :: LinkPlanner
  document :: Document

definition initialApp :: App where
  "initialApp =
     \<lparr>planner = \<lparr>towers = [], links = [], activeLinkPhase = None, selectedLink = None,
                  nextId = 1\<rparr>,
      document = \<lparr>map_children = []\<rparr>\<rparr>"

datatype error = TypeError | DanglingReference

section \<open>Document operations\<close>

text \<open>
  An element found by \<open>getElementById\<close> is the first one with the identifier, in
  document order; a write through the reference changes that element in place.
\<close>

fun update_first :: "('a \<Rightarrow> bool) \<Rightarrow> ('a \<Rightarrow> 'a) \<Rightarrow> 'a list \<Rightarrow> 'a list" where
  "update_first P f [] = []"
| "update_first P f (x # xs) = (if P x then f x # xs else x # update_first P f xs)"

definition isOverlay :: "SvgOverlay \<Rightarrow> bool" where
  "isOverlay s = (svg_id s = ''fresnel-svg-overlay'')"

definition isEllipse :: "Ellipse \<Rightarrow> bool" where
  "isEllipse e = (ellipse_id e = ''fresnel-ellipse'')"

definition allEllipses :: "Document \<Rightarrow> Ellipse list" where
  "allEllipses doc = concat (map svg_children (map_children doc))"

definition getOverlay :: "Document \<Rightarrow> SvgOverlay option" where
  "getOverlay doc = find isOverlay (map_children doc)"

definition getEllipse :: "Document \<Rightarrow> Ellipse option" where
  "getEllipse doc = find isEllipse (allEllipses doc)"

text \<open>\<open>getAttribute\<close> on the ellipse of the document, when there is one.\<close>

definition ellipseAttr :: "(Ellipse \<Rightarrow> 'a option) \<Rightarrow> Document \<Rightarrow> 'a option" where
  "ellipseAttr attr doc = Option.bind (getEllipse doc) attr"

definition ellipseCount :: "Document \<Rightarrow> nat" where
  "ellipseCount doc = length (filter isEllipse (allEllipses doc))"

text \<open>
  An ellipse is shown when an overlay that the program has switched to
  \<open>display: block\<close> holds an ellipse.
\<close>

definition ellipseShown :: "Document \<Rightarrow> bool" where
  "ellipseShown doc =
     list_ex (\<lambda>s. style_display s = ''block'' \<and> list_ex isEllipse (svg_children s))
       (map_children doc)"

definition newOverlay :: SvgOverlay where
  "newOverlay =
     \<lparr>svg_id = ''fresnel-svg-overlay'', svg_class = ''fresnel-svg-overlay'',
      svg_children = [], style_display = []\<rparr>"

definition newEllipse :: Ellipse where
  "newEllipse =
     \<lparr>ellipse_id = ''fresnel-ellipse'', attr_cx = None, attr_cy = None, attr_rx = None,
      attr_ry = None, attr_transform = None\<rparr>"

text \<open>Lines 230 to 237: find the overlay, or create it and append it to the map.\<close>

definition ensureOverlay :: "Document \<Rightarrow> Document" where
  "ensureOverlay doc =
     (case getOverlay doc of
        Some svgOverlay \<Rightarrow> doc
      | None \<Rightarrow> doc\<lparr>map_children := map_children doc @ [newOverlay]\<rparr>)"

text \<open>Lines 239 to 244: find the ellipse, or create it and append it to the overlay.\<close>

definition ensureEllipse :: "Document \<Rightarrow> Document" where
  "ensureEllipse doc =
     (case getEllipse doc of
        Some ellipse \<Rightarrow> doc
      | None \<Rightarrow>
          doc\<lparr>map_children :=
                update_first isOverlay
                  (\<lambda>s. s\<lparr>svg_children := svg_children s @ [newEllipse]\<rparr>)
                  (map_children doc)\<rparr>)"

text \<open>A write to the ellipse found, and a write to the overlay found.\<close>

definition mutateEllipse :: "(Ellipse \<Rightarrow> Ellipse) \<Rightarrow> Document \<Rightarrow> Document" where
  "mutateEllipse f doc =
     doc\<lparr>map_children :=
           update_first (\<lambda>s. list_ex isEllipse (svg_children s))
             (\<lambda>s. s\<lparr>svg_children := update_first isEllipse f (svg_children s)\<rparr>)
             (map_children doc)\<rparr>"

definition mutateOverlay :: "(SvgOverlay \<Rightarrow> SvgOverlay) \<Rightarrow> Document \<Rightarrow> Document" where
  "mutateOverlay f doc = doc\<lparr>map_children := update_first isOverlay f (map_children doc)\<rparr>"

section \<open>Drawing the Fresnel zone\<close>

text \<open>Lines 219 to 227 of \<open>drawFresnelZone\<close>: the bearing, normalised.\<close>

definition toRad :: "real \<Rightarrow> real" where
  "toRad deg = deg * pi / 180"

definition bearingDeg :: "LatLng \<Rightarrow> LatLng \<Rightarrow> real" where
  "bearingDeg latlngA latlngB =
     (let dLon = toRad (lng latlngB - lng latlngA);
          latA = toRad (lat latlngA);
          latB = toRad (lat latlngB);
          y = sin dLon * cos latB;
          x = cos latA * sin latB - sin latA * cos latB * cos dLon;
          bearing = js_atan2 y x * 180 / pi
      in js_rem (bearing + 360) 360)"

text \<open>
  Lines 267 to 278: the five \<open>setAttribute\<close> calls on the ellipse, with the
  rotation about the centre just written, and the write that shows the overlay.
\<close>

definition setEllipseAttributes ::
  "jsnum \<Rightarrow> jsnum \<Rightarrow> jsnum \<Rightarrow> jsnum \<Rightarrow> jsnum \<Rightarrow> Ellipse \<Rightarrow> Ellipse" where
  "setEllipseAttributes cx cy rx ry angle ellipse =
     ellipse\<lparr>attr_cx := Some cx,
             attr_cy := Some cy,
             attr_rx := Some rx,
             attr_ry := Some ry,
             attr_transform := Some (Rotate angle cx cy)\<rparr>"

definition showOverlay :: "SvgOverlay \<Rightarrow> SvgOverlay" where
  "showOverlay svgOverlay = svgOverlay\<lparr>style_display := ''block''\<rparr>"

text \<open>
  \<open>drawFresnelZone(link)\<close>. It reads the towers of \<open>linkPlanner\<close> and the map, and
  writes the document. No statement of it can raise: it returns the document.
\<close>

definition drawFresnelZone :: "Leaflet \<Rightarrow> LinkPlanner \<Rightarrow> Document \<Rightarrow> Link \<Rightarrow> Document" where
  "drawFresnelZone m lp doc link =
     (case (find (\<lambda>t. tower_id t = towerAId link) (towers lp),
            find (\<lambda>t. tower_id t = towerBId link) (towers lp)) of
        (Some towerA, Some towerB) \<Rightarrow>
          let latlngA = latlng towerA;
              latlngB = latlng towerB;
              distanceMeters = latLngDistanceTo m latlngA latlngB;
              frequencyHz = js_mul (frequencyGHz towerA) (Fin 1000000000);
              maxFresnelRadiusMeters =
                calculateMaxFresnelRadius frequencyHz (Fin distanceMeters);
              centerLatlng =
                \<lparr>lat = (lat latlngA + lat latlngB) / 2,
                 lng = (lng latlngA + lng latlngB) / 2\<rparr>;
              bearing = bearingDeg latlngA latlngB;
              doc1 = ensureOverlay doc;
              doc2 = ensureEllipse doc1;
              centerPoint = latLngToLayerPoint m centerLatlng;
              pA = latLngToLayerPoint m latlngA;
              pB = latLngToLayerPoint m latlngB;
              mapPaneOffset = getPixelOrigin m;
              cx = point_x centerPoint - point_x mapPaneOffset;
              cy = point_y centerPoint - point_y mapPaneOffset;
              lengthPixels = pointDistanceTo m pA pB;
              metersPerPixel = js_div (Fin distanceMeters) (Fin lengthPixels);
              rMaxPixels = js_div maxFresnelRadiusMeters metersPerPixel;
              doc3 =
                mutateEllipse
                  (setEllipseAttributes (Fin cx) (Fin cy) (js_div (Fin lengthPixels) (Fin 2))
                     rMaxPixels (Fin (bearing - 90)))
                  doc2
          in mutateOverlay showOverlay doc3
      | _ \<Rightarrow> doc)"

section \<open>Tower and link management\<close>

text \<open>
  A write through a reference to a tower or link object changes the object of the
  collection that has the identifier.
\<close>

definition setTower :: "ident \<Rightarrow> (Tower \<Rightarrow> Tower) \<Rightarrow> LinkPlanner \<Rightarrow> LinkPlanner" where
  "setTower tid f lp = lp\<lparr>towers := update_first (\<lambda>t. tower_id t = tid) f (towers lp)\<rparr>"

definition setLink :: "ident \<Rightarrow> (Link \<Rightarrow> Link) \<Rightarrow> LinkPlanner \<Rightarrow> LinkPlanner" where
  "setLink lid f lp = lp\<lparr>links := update_first (\<lambda>l. link_id l = lid) f (links lp)\<rparr>"

text \<open>\<open>addTower(latlng)\<close>; the default frequency is 5.8 GHz.\<close>

definition addTower :: "LatLng \<Rightarrow> LinkPlanner \<Rightarrow> LinkPlanner" where
  "addTower position lp =
     (let newTower =
            \<lparr>tower_id = TowerId (nextId lp), latlng = position,
             frequencyGHz = Fin (58 / 10), marker_borderColor = []\<rparr>
      in lp\<lparr>nextId := nextId lp + 1, towers := towers lp @ [newTower]\<rparr>)"

text \<open>\<open>createLink(towerA, towerB)\<close>.\<close>

definition createLink :: "Tower \<Rightarrow> Tower \<Rightarrow> LinkPlanner \<Rightarrow> LinkPlanner" where
  "createLink towerA towerB lp =
     (let newLink =
            \<lparr>link_id = LinkId (nextId lp), towerAId = tower_id towerA,
             towerBId = tower_id towerB, linkLine_className = ''leaflet-link-line''\<rparr>
      in lp\<lparr>nextId := nextId lp + 1, links := links lp @ [newLink]\<rparr>)"

text \<open>
  Lines 105 to 114 of \<open>handleTowerClick\<close>: the frequency edit. The argument is the
  outcome of the prompt: \<open>None\<close> when it was cancelled, else \<open>parseFloat\<close> of the
  reply.
\<close>

definition editFrequency :: "jsnum option \<Rightarrow> ident \<Rightarrow> LinkPlanner \<Rightarrow> LinkPlanner" where
  "editFrequency newFreq tid lp =
     (case newFreq of
        None \<Rightarrow> lp
      | Some freq \<Rightarrow>
          if \<not> js_isNaN freq \<and> js_lt (Fin 0) freq
          then setTower tid (\<lambda>t. t\<lparr>frequencyGHz := freq\<rparr>) lp
          else lp)"

text \<open>
  \<open>handleTowerClick(tower)\<close>. The handler is attached to towers of the collection
  only; a reference to anything else is \<open>DanglingReference\<close>. Reading
  \<open>towerA.frequencyGHz\<close> when \<open>find\<close> returned \<open>undefined\<close> raises \<open>TypeError\<close>.
\<close>

definition handleTowerClick :: "jsnum option \<Rightarrow> ident \<Rightarrow> LinkPlanner \<Rightarrow> error + LinkPlanner" where
  "handleTowerClick newFreq tid lp0 =
     (let lp = editFrequency newFreq tid lp0 in
      case find (\<lambda>t. tower_id t = tid) (towers lp) of
        None \<Rightarrow> Inl DanglingReference
      | Some tower \<Rightarrow>
          (case activeLinkPhase lp of
             None \<Rightarrow>
               Inr (setTower tid (\<lambda>t. t\<lparr>marker_borderColor := ''yellow''\<rparr>)
                      (lp\<lparr>activeLinkPhase := Some tid\<rparr>))
           | Some phase \<Rightarrow>
               if phase = tid
               then Inr (setTower tid (\<lambda>t. t\<lparr>marker_borderColor := ''white''\<rparr>)
                           (lp\<lparr>activeLinkPhase := None\<rparr>))
               else
                 (case find (\<lambda>t. tower_id t = phase) (towers lp) of
                    None \<Rightarrow> Inl TypeError
                  | Some towerA \<Rightarrow>
                      let towerB = tower;
                          lp1 = (if js_strict_eq (frequencyGHz towerA) (frequencyGHz towerB)
                                 then createLink towerA towerB lp
                                 else lp)
                      in Inr (setTower phase (\<lambda>t. t\<lparr>marker_borderColor := ''white''\<rparr>)
                                (lp1\<lparr>activeLinkPhase := None\<rparr>)))))"

text \<open>\<open>handleLinkClick(link, event)\<close>, attached to links of the collection only.\<close>

definition handleLinkClick :: "Leaflet \<Rightarrow> ident \<Rightarrow> App \<Rightarrow> error + App" where
  "handleLinkClick m lid app =
     (case find (\<lambda>l. link_id l = lid) (links (planner app)) of
        None \<Rightarrow> Inl DanglingReference
      | Some link \<Rightarrow>
          let lp = planner app;
              lp1 = (case selectedLink lp of
                       None \<Rightarrow> lp
                     | Some previous \<Rightarrow>
                         setLink previous
                           (\<lambda>l. l\<lparr>linkLine_className := ''leaflet-link-line''\<rparr>) lp);
              lp2 = setLink lid (\<lambda>l. l\<lparr>linkLine_className := ''leaflet-link-line-selected''\<rparr>)
                      (lp1\<lparr>selectedLink := Some lid\<rparr>)
          in Inr \<lparr>planner = lp2, document = drawFresnelZone m lp2 (document app) link\<rparr>)"

text \<open>The listeners of the map: \<open>click\<close> (lines 316 to 328) and \<open>moveend\<close>.\<close>

definition handleMapClick :: "LatLng \<Rightarrow> LinkPlanner \<Rightarrow> LinkPlanner" where
  "handleMapClick position lp =
     (case activeLinkPhase lp of
        None \<Rightarrow> addTower position lp
      | Some phase \<Rightarrow>
          (setTower phase (\<lambda>t. t\<lparr>marker_borderColor := ''white''\<rparr>) lp)
            \<lparr>activeLinkPhase := None\<rparr>)"

definition handleMoveEnd :: "Leaflet \<Rightarrow> App \<Rightarrow> error + App" where
  "handleMoveEnd m app =
     (case selectedLink (planner app) of
        None \<Rightarrow> Inr app
      | Some lid \<Rightarrow>
          (case find (\<lambda>l. link_id l = lid) (links (planner app)) of
             None \<Rightarrow> Inl DanglingReference
           | Some link \<Rightarrow>
               Inr (app\<lparr>document := drawFresnelZone m (planner app) (document app) link\<rparr>)))"

text \<open>
  The events of the page, each with the state of the map service when it is handled,
  and a run of the handlers over a list of events, stopping at the first error.
\<close>

datatype event =
  MapClick LatLng
| TowerClick ident "jsnum option"
| LinkClick ident
| MoveEnd

fun step :: "Leaflet \<Rightarrow> event \<Rightarrow> App \<Rightarrow> error + App" where
  "step m (MapClick position) app = Inr (app\<lparr>planner := handleMapClick position (planner app)\<rparr>)"
| "step m (TowerClick tid newFreq) app =
     (case handleTowerClick newFreq tid (planner app) of
        Inl e \<Rightarrow> Inl e
      | Inr lp \<Rightarrow> Inr (app\<lparr>planner := lp\<rparr>))"
| "step m (LinkClick lid) app = handleLinkClick m lid app"
| "step m MoveEnd app = handleMoveEnd m app"

fun run :: "(Leaflet \<times> event) list \<Rightarrow> App \<Rightarrow> error + App" where
  "run [] app = Inr app"
| "run ((m, ev) # evs) app =
     (case step m ev app of Inl e \<Rightarrow> Inl e | Inr app' \<Rightarrow> run evs app')"

section \<open>Reference definitions and a sample map\<close>

text \<open>
  The bearing in the words of the specification (section 4.1): the standard
  spherical formula, in degrees, brought into the interval from 0 to 360 by the
  floor modulus.
\<close>

definition initialBearing_spec :: "LatLng \<Rightarrow> LatLng \<Rightarrow> real" where
  "initialBearing_spec a b =
     (let phi1 = lat a * pi / 180;
          phi2 = lat b * pi / 180;
          dlambda = (lng b - lng a) * pi / 180;
          theta = js_atan2 (sin dlambda * cos phi2)
                    (cos phi1 * sin phi2 - sin phi1 * cos phi2 * cos dlambda);
          deg = theta * 180 / pi
      in deg - 360 * of_int \<lfloor>deg / 360\<rfloor>)"

text \<open>The midpoint in the words of the specification: the arithmetic mean.\<close>

definition midpoint_spec :: "LatLng \<Rightarrow> LatLng \<Rightarrow> LatLng" where
  "midpoint_spec a b = \<lparr>lat = (lat a + lat b) / 2, lng = (lng a + lng b) / 2\<rparr>"

text \<open>
  A sample map service for evaluating the program on concrete inputs: a flat
  viewport of 256 pixels per degree with its pixel origin at (100, 50), distances by
  Pythagoras, 111195 meters per degree. Like the map service of the page, it gives
  distance zero, in meters and in pixels, between identical points.
\<close>

definition sampleMap :: Leaflet where
  "sampleMap =
     \<lparr>latLngToLayerPoint = (\<lambda>p. \<lparr>point_x = 256 * lng p, point_y = - (256 * lat p)\<rparr>),
      getPixelOrigin = \<lparr>point_x = 100, point_y = 50\<rparr>,
      latLngDistanceTo =
        (\<lambda>a b. 111195 * sqrt ((lat b - lat a)\<^sup>2 + (lng b - lng a)\<^sup>2)),
      pointDistanceTo =
        (\<lambda>p q. sqrt ((point_x q - point_x p)\<^sup>2 + (point_y q - point_y p)\<^sup>2))\<rparr>"

text \<open>
  Sample sessions. In the first, towers T1, T2 and T4 are placed at three places, T1
  and T2 are linked by L3, T2 and T4 by L5. In the second, T1 and T2 are placed at the
  same place and linked by L3 (scenario 2). In the third, T1 and T2 are placed and T1
  has been clicked as the first tower of a link (scenario 3 before its second click).
\<close>

definition placeP :: LatLng where
  "placeP = \<lparr>lat = 0, lng = 0\<rparr>"

definition placeQ :: LatLng where
  "placeQ = \<lparr>lat = 0, lng = 1\<rparr>"

definition placeR :: LatLng where
  "placeR = \<lparr>lat = 1, lng = 1\<rparr>"

definition sampleEvents :: "(Leaflet \<times> event) list" where
  "sampleEvents =
     [(sampleMap, MapClick placeP), (sampleMap, MapClick placeQ),
      (sampleMap, TowerClick (TowerId 1) None), (sampleMap, TowerClick (TowerId 2) None),
      (sampleMap, MapClick placeR),
      (sampleMap, TowerClick (TowerId 2) None), (sampleMap, TowerClick (TowerId 4) None)]"

definition samplePlanner :: LinkPlanner where
  "samplePlanner =
     \<lparr>towers =
        [\<lparr>tower_id = TowerId 1, latlng = placeP, frequencyGHz = Fin (58 / 10),
          marker_borderColor = ''white''\<rparr>,
         \<lparr>tower_id = TowerId 2, latlng = placeQ, frequencyGHz = Fin (58 / 10),
          marker_borderColor = ''white''\<rparr>,
         \<lparr>tower_id = TowerId 4, latlng = placeR, frequencyGHz = Fin (58 / 10),
          marker_borderColor = []\<rparr>],
      links =
        [\<lparr>link_id = LinkId 3, towerAId = TowerId 1, towerBId = TowerId 2,
          linkLine_className = ''leaflet-link-line''\<rparr>,
         \<lparr>link_id = LinkId 5, towerAId = TowerId 2, towerBId = TowerId 4,
          linkLine_className = ''leaflet-link-line''\<rparr>],
      activeLinkPhase = None, selectedLink = None, nextId = 6\<rparr>"

definition sampleLink3 :: Link where
  "sampleLink3 =
     \<lparr>link_id = LinkId 3, towerAId = TowerId 1, towerBId = TowerId 2,
      linkLine_className = ''leaflet-link-line''\<rparr>"

text \<open>The first session after a click on L3, with the viewport of the sample map.\<close>

definition sampleSelectedPlanner :: LinkPlanner where
  "sampleSelectedPlanner =
     samplePlanner
       \<lparr>links :=
          [\<lparr>link_id = LinkId 3, towerAId = TowerId 1, towerBId = TowerId 2,
            linkLine_className = ''leaflet-link-line-selected''\<rparr>,
           \<lparr>link_id = LinkId 5, towerAId = TowerId 2, towerBId = TowerId 4,
            linkLine_className = ''leaflet-link-line''\<rparr>],
        selectedLink := Some (LinkId 3)\<rparr>"

definition sampleSelected :: App where
  "sampleSelected =
     \<lparr>planner = sampleSelectedPlanner,
      document =
        drawFresnelZone sampleMap sampleSelectedPlanner \<lparr>map_children = []\<rparr> sampleLink3\<rparr>"

text \<open>A link object whose second tower is not in the collection.\<close>

definition danglingLink :: Link where
  "danglingLink =
     \<lparr>link_id = LinkId 7, towerAId = TowerId 1, towerBId = TowerId 9,
      linkLine_className = ''leaflet-link-line''\<rparr>"

definition degenerateEvents :: "(Leaflet \<times> event) list" where
  "degenerateEvents =
     [(sampleMap, MapClick placeP), (sampleMap, MapClick placeP),
      (sampleMap, TowerClick (TowerId 1) None), (sampleMap, TowerClick (TowerId 2) None)]"

definition degeneratePlanner :: LinkPlanner where
  "degeneratePlanner =
     \<lparr>towers =
        [\<lparr>tower_id = TowerId 1, latlng = placeP, frequencyGHz = Fin (58 / 10),
          marker_borderColor = ''white''\<rparr>,
         \<lparr>tower_id = TowerId 2, latlng = placeP, frequencyGHz = Fin (58 / 10),
          marker_borderColor = []\<rparr>],
      links =
        [\<lparr>link_id = LinkId 3, towerAId = TowerId 1, towerBId = TowerId 2,
          linkLine_className = ''leaflet-link-line''\<rparr>],
      activeLinkPhase = None, selectedLink = None, nextId = 4\<rparr>"

definition pendingEvents :: "(Leaflet \<times> event) list" where
  "pendingEvents =
     [(sampleMap, MapClick placeP), (sampleMap, MapClick placeQ),
      (sampleMap, TowerClick (TowerId 1) None)]"

definition pendingPlanner :: LinkPlanner where
  "pendingPlanner =
     \<lparr>towers =
        [\<lparr>tower_id = TowerId 1, latlng = placeP, frequencyGHz = Fin (58 / 10),
          marker_borderColor = ''yellow''\<rparr>,
         \<lparr>tower_id = TowerId 2, latlng = placeQ, frequencyGHz = Fin (58 / 10),
          marker_borderColor = []\<rparr>],
      links = [], activeLinkPhase = Some (TowerId 1), selectedLink = None, nextId = 3\<rparr>"

section \<open>Properties of the Fresnel zone calculation\<close>

lemma calculateMaxFresnelRadius_Fin:
  "calculateMaxFresnelRadius (Fin f) (Fin d) =
     (if f \<le> 0 \<or> d \<le> 0 then Fin 0 else Fin (sqrt (300000000 / f * d / 4)))"
proof (cases "f \<le> 0 \<or> d \<le> 0")
  case True
  then show ?thesis
    by (auto simp: calculateMaxFresnelRadius_def)
next
  case False
  then have pos: "0 < f" "0 < d" by simp_all
  then have "\<not> 300000000 / f * d / 4 < 0"
    by (simp add: not_less)
  with pos show ?thesis
    by (simp add: calculateMaxFresnelRadius_def SPEED_OF_LIGHT_def Let_def)
qed

lemma scenario1_upper: "sqrt (375 / 29) < 35960 / 10000"
proof -
  have "(375 / 29 :: real) < (35960 / 10000)\<^sup>2"
    by (simp add: power2_eq_square)
  then show ?thesis
    by (rule real_less_lsqrt [rotated]) simp
qed

lemma scenario1_lower: "35959 / 10000 < sqrt (375 / 29)"
proof -
  have "(35959 / 10000)\<^sup>2 < (375 / 29 :: real)"
    by (simp add: power2_eq_square)
  then show ?thesis
    by (rule real_less_rsqrt)
qed

lemma calculateMaxFresnelRadius_positive:
  "0 < f \<Longrightarrow> 0 < d \<Longrightarrow>
     calculateMaxFresnelRadius (Fin f) (Fin d) = Fin (sqrt (300000000 / f * d / 4))"
  by (simp add: calculateMaxFresnelRadius_Fin)

lemma js_lt_not_le: "js_lt (Fin 0) a \<Longrightarrow> \<not> js_le a (Fin 0)"
  by (cases a) simp_all

text \<open>
  C1: \<open>calculateMaxFresnelRadius\<close> equals the reference definition. On finite
  inputs it is the real-valued reference function; whenever \<open>frequencyHz > 0\<close> and
  \<open>distanceMeters > 0\<close> hold in the language it returns the square root of
  \<open>(3e8 / frequencyHz) * distanceMeters / 4\<close>; whenever \<open>frequencyHz <= 0\<close> or
  \<open>distanceMeters <= 0\<close> holds it returns 0; and for 5.8 GHz over 1000 m the result
  is the square root of 375/29, which is 3.597 m to within 0.002 m.
\<close>

theorem calculateMaxFresnelRadius_reference:
  "calculateMaxFresnelRadius (Fin f) (Fin d) = Fin (maxFresnelRadius_spec f d) \<and>
   (js_lt (Fin 0) fp \<and> js_lt (Fin 0) dp \<longrightarrow>
      calculateMaxFresnelRadius fp dp =
        js_sqrt (js_div (js_mul (js_div (Fin 300000000) fp) dp) (Fin 4))) \<and>
   (js_le fz (Fin 0) \<or> js_le dz (Fin 0) \<longrightarrow> calculateMaxFresnelRadius fz dz = Fin 0) \<and>
   calculateMaxFresnelRadius (Fin 5800000000) (Fin 1000) = Fin (sqrt (375 / 29)) \<and>
   js_lt (Fin (3597 / 1000 - 2 / 1000)) (calculateMaxFresnelRadius (Fin 5800000000) (Fin 1000)) \<and>
   js_lt (calculateMaxFresnelRadius (Fin 5800000000) (Fin 1000)) (Fin (3597 / 1000 + 2 / 1000))"
proof -
  have "calculateMaxFresnelRadius (Fin f) (Fin d) = Fin (maxFresnelRadius_spec f d)"
    by (simp add: calculateMaxFresnelRadius_Fin maxFresnelRadius_spec_def wavelength_spec_def)
  moreover have "js_lt (Fin 0) fp \<and> js_lt (Fin 0) dp \<longrightarrow>
      calculateMaxFresnelRadius fp dp =
        js_sqrt (js_div (js_mul (js_div (Fin 300000000) fp) dp) (Fin 4))"
    by (simp add: calculateMaxFresnelRadius_def SPEED_OF_LIGHT_def Let_def js_lt_not_le)
  moreover have "js_le fz (Fin 0) \<or> js_le dz (Fin 0) \<longrightarrow>
      calculateMaxFresnelRadius fz dz = Fin 0"
    by (simp add: calculateMaxFresnelRadius_def)
  moreover have "calculateMaxFresnelRadius (Fin 5800000000) (Fin 1000) = Fin (sqrt (375 / 29))"
    by (simp add: calculateMaxFresnelRadius_Fin)
  moreover have "3597 / 1000 - 2 / 1000 < sqrt (375 / 29)"
    using scenario1_lower by simp
  moreover have "sqrt (375 / 29) < 3597 / 1000 + 2 / 1000"
    using scenario1_upper by simp
  ultimately show ?thesis
    by simp
qed

theorem calculateMaxFresnelRadius_reference_witness:
  "js_lt (Fin 0) (Fin 5800000000) \<and> js_lt (Fin 0) (Fin 1000) \<and>
   calculateMaxFresnelRadius (Fin 5800000000) (Fin 1000) =
     js_sqrt (js_div (js_mul (js_div (Fin 300000000) (Fin 5800000000)) (Fin 1000)) (Fin 4)) \<and>
   js_le NInf (Fin 0) \<and>
   calculateMaxFresnelRadius NInf (Fin 1000) = Fin 0 \<and>
   calculateMaxFresnelRadius (Fin 5800000000) (Fin 0) =
     Fin (maxFresnelRadius_spec 5800000000 0)"
  using calculateMaxFresnelRadius_reference [of 5800000000 0 "Fin 5800000000" "Fin 1000"
      NInf "Fin 1000"]
  by simp

lemma calculateMaxFresnelRadius_PInf:
  "0 < d \<Longrightarrow> calculateMaxFresnelRadius PInf (Fin d) = Fin 0"
  by (simp add: calculateMaxFresnelRadius_def SPEED_OF_LIGHT_def)

lemma sqrt_scaled_mono:
  assumes "0 < f" "f \<le> f'" "0 < d" "d \<le> d'"
  shows "sqrt (300000000 / f * d / 4) \<le> sqrt (300000000 / f * d' / 4)"
    and "sqrt (300000000 / f' * d / 4) \<le> sqrt (300000000 / f * d / 4)"
proof -
  have "300000000 / f * d \<le> 300000000 / f * d'"
    using assms by (intro mult_left_mono) simp_all
  then have "300000000 / f * d / 4 \<le> 300000000 / f * d' / 4"
    by (rule divide_right_mono) simp
  then show "sqrt (300000000 / f * d / 4) \<le> sqrt (300000000 / f * d' / 4)"
    by (rule real_sqrt_le_mono)
  have "300000000 / f' \<le> 300000000 / f"
    using assms by (simp add: frac_le)
  then have "300000000 / f' * d \<le> 300000000 / f * d"
    using assms by (intro mult_right_mono) simp_all
  then have "300000000 / f' * d / 4 \<le> 300000000 / f * d / 4"
    by (rule divide_right_mono) simp
  then show "sqrt (300000000 / f' * d / 4) \<le> sqrt (300000000 / f * d / 4)"
    by (rule real_sqrt_le_mono)
qed

text \<open>
  C6, as stated, at the frequency \<open>Infinity\<close>, which is greater than 0 and which the
  frequency prompt accepts: the wavelength is 0, so the radius over 1000 m is 0, not
  strictly positive, and it is the same over 2000 m, not strictly larger.
\<close>

theorem infinite_frequency_radius_zero:
  "js_lt (Fin 0) PInf \<and> js_lt (Fin 0) (Fin 1000) \<and> js_lt (Fin 1000) (Fin 2000) \<and>
   \<not> js_lt (Fin 0) (calculateMaxFresnelRadius PInf (Fin 1000)) \<and>
   \<not> js_lt (calculateMaxFresnelRadius PInf (Fin 1000))
        (calculateMaxFresnelRadius PInf (Fin 2000))"
  by (simp add: calculateMaxFresnelRadius_PInf)

text \<open>
  C6, amended: for every \<open>frequencyHz > 0\<close>, \<open>Infinity\<close> included, and every finite
  \<open>distanceMeters > 0\<close>, the radius is a number not below 0, it does not decrease
  when the distance grows and it does not increase when the frequency grows; at the
  frequency \<open>Infinity\<close> it is 0. Nothing strict is stated.
\<close>

theorem calculateMaxFresnelRadius_weakly_monotone:
  assumes f: "js_lt (Fin 0) frequencyHz"
    and ff: "js_le frequencyHz frequencyHz'"
    and d: "0 < d"
    and dd: "d \<le> d'"
  shows "js_le (Fin 0) (calculateMaxFresnelRadius frequencyHz (Fin d)) \<and>
     js_le (calculateMaxFresnelRadius frequencyHz (Fin d))
       (calculateMaxFresnelRadius frequencyHz (Fin d')) \<and>
     js_le (calculateMaxFresnelRadius frequencyHz' (Fin d))
       (calculateMaxFresnelRadius frequencyHz (Fin d)) \<and>
     calculateMaxFresnelRadius PInf (Fin d) = Fin 0"
proof -
  from d dd have d': "0 < d'" by simp
  from f ff consider
      (fin) a b where "frequencyHz = Fin a" "frequencyHz' = Fin b" "0 < a" "a \<le> b"
    | (inf) a where "frequencyHz = Fin a" "frequencyHz' = PInf" "0 < a"
    | (both) "frequencyHz = PInf" "frequencyHz' = PInf"
    by (cases frequencyHz; cases frequencyHz') simp_all
  then show ?thesis
  proof cases
    case fin
    then have "0 < b" by simp
    with fin d d' dd sqrt_scaled_mono [of a b d d'] show ?thesis
      by (simp add: calculateMaxFresnelRadius_positive calculateMaxFresnelRadius_PInf)
  next
    case inf
    with d d' dd sqrt_scaled_mono [of a a d d'] show ?thesis
      by (simp add: calculateMaxFresnelRadius_positive calculateMaxFresnelRadius_PInf)
  next
    case both
    with d d' show ?thesis
      by (simp add: calculateMaxFresnelRadius_PInf)
  qed
qed

theorem calculateMaxFresnelRadius_weakly_monotone_witness:
  "js_lt (Fin 0) (Fin 5800000000) \<and> js_le (Fin 5800000000) PInf \<and>
   js_le (Fin 0) (calculateMaxFresnelRadius (Fin 5800000000) (Fin 1000)) \<and>
   js_le (calculateMaxFresnelRadius (Fin 5800000000) (Fin 1000))
     (calculateMaxFresnelRadius (Fin 5800000000) (Fin 2000)) \<and>
   js_le (calculateMaxFresnelRadius PInf (Fin 1000))
     (calculateMaxFresnelRadius (Fin 5800000000) (Fin 1000)) \<and>
   calculateMaxFresnelRadius PInf (Fin 1000) = Fin 0"
  using calculateMaxFresnelRadius_weakly_monotone [of "Fin 5800000000" PInf 1000 2000]
  by simp

section \<open>Properties of the document operations\<close>

lemma update_first_append:
  "update_first P f (xs @ ys) =
     (if list_ex P xs then update_first P f xs @ ys else xs @ update_first P f ys)"
  by (induction xs) auto

lemma update_first_none: "\<not> list_ex P xs \<Longrightarrow> update_first P f xs = xs"
  by (induction xs) auto

lemma find_update_first:
  "(\<And>x. P x \<Longrightarrow> P (f x)) \<Longrightarrow> find P (update_first P f xs) = map_option f (find P xs)"
  by (induction xs) auto

lemma filter_update_first_length:
  "(\<And>x. P x \<Longrightarrow> P (f x)) \<Longrightarrow>
     length (filter P (update_first P f xs)) = length (filter P xs)"
  by (induction xs) auto

lemma map_update_first_same:
  "(\<And>x. g (f x) = g x) \<Longrightarrow> map g (update_first Q f xs) = map g xs"
  by (induction xs) auto

lemma find_update_first_other:
  "(\<And>x. P (f x) = P x) \<Longrightarrow> (\<And>x. P x \<Longrightarrow> \<not> Q x) \<Longrightarrow>
     find P (update_first Q f xs) = find P xs"
  by (induction xs) auto

lemma find_None_list_ex: "find P xs = None \<longleftrightarrow> \<not> list_ex P xs"
  by (induction xs) auto

lemma find_None_filter: "find P xs = None \<longleftrightarrow> filter P xs = []"
  by (induction xs) auto

lemma find_append_cases:
  "find P (xs @ ys) = (case find P xs of None \<Rightarrow> find P ys | Some x \<Rightarrow> Some x)"
  by (induction xs) auto

lemma concat_children_mutate:
  "concat (map svg_children
      (update_first (\<lambda>s. list_ex P (svg_children s))
         (\<lambda>s. s\<lparr>svg_children := update_first P f (svg_children s)\<rparr>) ss)) =
   update_first P f (concat (map svg_children ss))"
  by (induction ss) (auto simp: update_first_append update_first_none list_ex_iff)

lemma allEllipses_mutateEllipse:
  "allEllipses (mutateEllipse f doc) = update_first isEllipse f (allEllipses doc)"
  by (simp add: allEllipses_def mutateEllipse_def concat_children_mutate)

lemma allEllipses_mutateOverlay:
  "(\<And>s. svg_children (g s) = svg_children s) \<Longrightarrow>
     allEllipses (mutateOverlay g doc) = allEllipses doc"
  by (simp add: allEllipses_def mutateOverlay_def map_update_first_same)

lemma allEllipses_ensureOverlay: "allEllipses (ensureOverlay doc) = allEllipses doc"
  by (simp add: allEllipses_def ensureOverlay_def newOverlay_def split: option.splits)

lemma getOverlay_ensureOverlay: "getOverlay (ensureOverlay doc) \<noteq> None"
proof (cases "getOverlay doc")
  case None
  then show ?thesis
    by (simp add: getOverlay_def ensureOverlay_def find_append_cases newOverlay_def
          isOverlay_def)
next
  case (Some s)
  then show ?thesis
    by (simp add: ensureOverlay_def)
qed

lemma find_concat_append_child:
  "find P (concat (map svg_children ss)) = None \<Longrightarrow> find Q ss \<noteq> None \<Longrightarrow> P e \<Longrightarrow>
   find P (concat (map svg_children
      (update_first Q (\<lambda>s. s\<lparr>svg_children := svg_children s @ [e]\<rparr>) ss))) = Some e"
proof (induction ss)
  case Nil
  then show ?case by simp
next
  case (Cons s ss)
  from Cons.prems(1) have here: "find P (svg_children s) = None"
    and rest: "find P (concat (map svg_children ss)) = None"
    by (auto simp: find_None_list_ex list_ex_iff)
  show ?case
  proof (cases "Q s")
    case True
    with here Cons.prems(3) show ?thesis
      by (auto simp: find_append_cases split: option.splits)
  next
    case False
    with Cons.prems(2) have "find Q ss \<noteq> None" by simp
    with Cons.IH rest Cons.prems(3) False here show ?thesis
      by (auto simp: find_append_cases split: option.splits)
  qed
qed

lemma filter_concat_append_child:
  "find Q ss \<noteq> None \<Longrightarrow> P e \<Longrightarrow>
   length (filter P (concat (map svg_children
      (update_first Q (\<lambda>s. s\<lparr>svg_children := svg_children s @ [e]\<rparr>) ss)))) =
   Suc (length (filter P (concat (map svg_children ss))))"
  by (induction ss) auto

lemma isEllipse_newEllipse: "isEllipse newEllipse"
  by (simp add: isEllipse_def newEllipse_def)

lemma getEllipse_ensureEllipse:
  "getOverlay doc \<noteq> None \<Longrightarrow>
     getEllipse (ensureEllipse doc) =
       Some (case getEllipse doc of None \<Rightarrow> newEllipse | Some e \<Rightarrow> e)"
  by (auto simp: ensureEllipse_def getEllipse_def getOverlay_def allEllipses_def
        find_concat_append_child isEllipse_newEllipse split: option.splits)

lemma ellipseCount_ensureEllipse:
  "getOverlay doc \<noteq> None \<Longrightarrow>
     ellipseCount (ensureEllipse doc) =
       (if getEllipse doc = None then 1 else ellipseCount doc)"
proof (cases "getEllipse doc")
  case None
  moreover from None have "filter isEllipse (allEllipses doc) = []"
    by (simp add: getEllipse_def find_None_filter)
  moreover assume "getOverlay doc \<noteq> None"
  ultimately show ?thesis
    by (simp add: ensureEllipse_def getOverlay_def allEllipses_def ellipseCount_def
          filter_concat_append_child isEllipse_newEllipse)
next
  case (Some e)
  then show ?thesis
    by (simp add: ensureEllipse_def)
qed

lemma getEllipse_None_count: "getEllipse doc = None \<longleftrightarrow> ellipseCount doc = 0"
  by (simp add: getEllipse_def ellipseCount_def find_None_filter)


lemma isEllipse_setEllipseAttributes:
  "isEllipse (setEllipseAttributes cx cy rx ry angle e) = isEllipse e"
  by (simp add: isEllipse_def setEllipseAttributes_def)

lemma svg_children_showOverlay: "svg_children (showOverlay s) = svg_children s"
  by (simp add: showOverlay_def)

lemma render_getEllipse:
  "getEllipse (mutateOverlay showOverlay
      (mutateEllipse (setEllipseAttributes cx cy rx ry angle)
         (ensureEllipse (ensureOverlay doc)))) =
     Some (setEllipseAttributes cx cy rx ry angle
             (case getEllipse doc of None \<Rightarrow> newEllipse | Some e \<Rightarrow> e))"
proof -
  have "getEllipse (ensureEllipse (ensureOverlay doc)) =
      Some (case getEllipse (ensureOverlay doc) of None \<Rightarrow> newEllipse | Some e \<Rightarrow> e)"
    by (rule getEllipse_ensureEllipse) (rule getOverlay_ensureOverlay)
  moreover have "getEllipse (ensureOverlay doc) = getEllipse doc"
    by (simp add: getEllipse_def allEllipses_ensureOverlay)
  ultimately have "find isEllipse (allEllipses (ensureEllipse (ensureOverlay doc))) =
      Some (case getEllipse doc of None \<Rightarrow> newEllipse | Some e \<Rightarrow> e)"
    by (simp add: getEllipse_def)
  then show ?thesis
    by (simp add: getEllipse_def allEllipses_mutateOverlay allEllipses_mutateEllipse
          find_update_first isEllipse_setEllipseAttributes svg_children_showOverlay)
qed

lemma render_ellipseCount:
  "ellipseCount (mutateOverlay showOverlay
      (mutateEllipse (setEllipseAttributes cx cy rx ry angle)
         (ensureEllipse (ensureOverlay doc)))) =
     (if getEllipse doc = None then 1 else ellipseCount doc)"
proof -
  have "ellipseCount (ensureEllipse (ensureOverlay doc)) =
      (if getEllipse (ensureOverlay doc) = None then 1 else ellipseCount (ensureOverlay doc))"
    by (rule ellipseCount_ensureEllipse) (rule getOverlay_ensureOverlay)
  moreover have "getEllipse (ensureOverlay doc) = getEllipse doc"
    by (simp add: getEllipse_def allEllipses_ensureOverlay)
  moreover have "ellipseCount (ensureOverlay doc) = ellipseCount doc"
    by (simp add: ellipseCount_def allEllipses_ensureOverlay)
  ultimately have "length (filter isEllipse (allEllipses (ensureEllipse (ensureOverlay doc)))) =
      (if getEllipse doc = None then 1 else ellipseCount doc)"
    by (simp add: ellipseCount_def)
  then show ?thesis
    by (simp add: ellipseCount_def allEllipses_mutateOverlay allEllipses_mutateEllipse
          filter_update_first_length isEllipse_setEllipseAttributes svg_children_showOverlay)
qed

text \<open>The ellipse of the document after a render whose two towers were found.\<close>

lemma draw_getEllipse:
  assumes "find (\<lambda>t. tower_id t = towerAId link) (towers lp) = Some towerA"
    and "find (\<lambda>t. tower_id t = towerBId link) (towers lp) = Some towerB"
  shows "getEllipse (drawFresnelZone m lp doc link) =
    Some (setEllipseAttributes
      (Fin (point_x (latLngToLayerPoint m (midpoint_spec (latlng towerA) (latlng towerB)))
              - point_x (getPixelOrigin m)))
      (Fin (point_y (latLngToLayerPoint m (midpoint_spec (latlng towerA) (latlng towerB)))
              - point_y (getPixelOrigin m)))
      (js_div (Fin (pointDistanceTo m (latLngToLayerPoint m (latlng towerA))
                      (latLngToLayerPoint m (latlng towerB)))) (Fin 2))
      (js_div
         (calculateMaxFresnelRadius (js_mul (frequencyGHz towerA) (Fin 1000000000))
            (Fin (latLngDistanceTo m (latlng towerA) (latlng towerB))))
         (js_div (Fin (latLngDistanceTo m (latlng towerA) (latlng towerB)))
            (Fin (pointDistanceTo m (latLngToLayerPoint m (latlng towerA))
                    (latLngToLayerPoint m (latlng towerB))))))
      (Fin (bearingDeg (latlng towerA) (latlng towerB) - 90))
      (case getEllipse doc of None \<Rightarrow> newEllipse | Some e \<Rightarrow> e))"
  unfolding drawFresnelZone_def Let_def assms midpoint_spec_def
  by (simp only: prod.case option.case render_getEllipse)

lemma draw_count:
  assumes "find (\<lambda>t. tower_id t = towerAId link) (towers lp) = Some towerA"
    and "find (\<lambda>t. tower_id t = towerBId link) (towers lp) = Some towerB"
  shows "ellipseCount (drawFresnelZone m lp doc link) =
     (if getEllipse doc = None then 1 else ellipseCount doc)"
  unfolding drawFresnelZone_def Let_def assms
  by (simp only: prod.case option.case render_ellipseCount)

lemma draw_missing:
  "find (\<lambda>t. tower_id t = towerAId link) (towers lp) = None \<or>
   find (\<lambda>t. tower_id t = towerBId link) (towers lp) = None \<Longrightarrow>
   drawFresnelZone m lp doc link = doc"
  by (auto simp: drawFresnelZone_def split: option.splits)


section \<open>Properties of the bearing\<close>

lemma js_atan2_range: "- pi < js_atan2 y x \<and> js_atan2 y x \<le> pi"
proof -
  have lb: "- (pi / 2) < arctan (y / x)" and ub: "arctan (y / x) < pi / 2"
    by (rule arctan_lbound, rule arctan_ubound)
  show ?thesis
  proof (cases "x < 0")
    case True
    show ?thesis
    proof (cases "0 \<le> y")
      case True
      with \<open>x < 0\<close> have "y / x \<le> 0"
        by (simp add: divide_nonneg_neg)
      then have "arctan (y / x) \<le> 0"
        by (simp add: arctan_le_zero_iff)
      with lb \<open>x < 0\<close> True pi_gt_zero show ?thesis
        unfolding js_atan2_def by (simp, linarith)
    next
      case False
      with \<open>x < 0\<close> have "0 < y / x"
        by (simp add: divide_neg_neg)
      then have "0 < arctan (y / x)"
        by (simp add: zero_less_arctan_iff)
      with ub \<open>x < 0\<close> False pi_gt_zero show ?thesis
        unfolding js_atan2_def by (simp, linarith)
    qed
  next
    case False
    with lb ub pi_gt_zero show ?thesis
      by (auto simp: js_atan2_def)
  qed
qed

lemma normalize_360:
  assumes "- 180 < b" and "b \<le> 180"
  shows "js_rem (b + 360) 360 = b - 360 * of_int \<lfloor>b / 360\<rfloor>"
proof (cases "b < 0")
  case True
  with assms have "\<lfloor>(b + 360) / 360\<rfloor> = 0" and "\<lfloor>b / 360\<rfloor> = - 1"
    by (simp_all add: floor_eq_iff)
  moreover from assms have "0 \<le> (b + 360) / 360" by simp
  ultimately show ?thesis
    by (simp add: js_rem_def js_trunc_def)
next
  case False
  with assms have "\<lfloor>(b + 360) / 360\<rfloor> = 1" and "\<lfloor>b / 360\<rfloor> = 0"
    by (simp_all add: floor_eq_iff)
  moreover from False have "0 \<le> (b + 360) / 360" by simp
  ultimately show ?thesis
    by (simp add: js_rem_def js_trunc_def)
qed

lemma degrees_range: "- 180 < js_atan2 y x * 180 / pi \<and> js_atan2 y x * 180 / pi \<le> 180"
proof -
  from js_atan2_range [of y x] have "- pi < js_atan2 y x" and "js_atan2 y x \<le> pi"
    by simp_all
  then have "- 180 * pi < js_atan2 y x * 180" and "js_atan2 y x * 180 \<le> 180 * pi"
    by simp_all
  then show ?thesis
    using pi_gt_zero by (simp add: pos_less_divide_eq pos_divide_le_eq)
qed

lemma bearingDeg_spec: "bearingDeg a b = initialBearing_spec a b"
  using degrees_range
  by (simp add: bearingDeg_def initialBearing_spec_def toRad_def Let_def normalize_360)

lemma initialBearing_spec_range: "0 \<le> initialBearing_spec a b \<and> initialBearing_spec a b < 360"
proof -
  define deg where "deg = js_atan2 (sin ((lng b - lng a) * pi / 180) * cos (lat b * pi / 180))
      (cos (lat a * pi / 180) * sin (lat b * pi / 180) -
       sin (lat a * pi / 180) * cos (lat b * pi / 180) * cos ((lng b - lng a) * pi / 180)) * 180 / pi"
  have eq: "initialBearing_spec a b = deg - 360 * of_int \<lfloor>deg / 360\<rfloor>"
    by (simp add: initialBearing_spec_def Let_def deg_def)
  have "of_int \<lfloor>deg / 360\<rfloor> \<le> deg / 360" and "deg / 360 < of_int \<lfloor>deg / 360\<rfloor> + 1"
    by linarith+
  then show ?thesis
    unfolding eq by (simp add: field_simps)
qed

lemma js_atan2_zero: "js_atan2 0 0 = 0"
  by (simp add: js_atan2_def)

lemma initialBearing_spec_same: "initialBearing_spec a a = 0"
  by (simp add: initialBearing_spec_def Let_def js_atan2_zero mult.commute)

lemma bearingDeg_north: "bearingDeg \<lparr>lat = 0, lng = 0\<rparr> \<lparr>lat = 1, lng = 0\<rparr> = 0"
proof -
  have "0 < sin (pi / 180)"
    by (rule sin_gt_zero) (use pi_gt_zero in simp_all)
  then have "js_atan2 0 (sin (pi / 180)) = 0"
    by (simp add: js_atan2_def)
  then show ?thesis
    by (simp add: bearingDeg_def toRad_def Let_def js_rem_def js_trunc_def)
qed

lemma bearingDeg_east: "bearingDeg \<lparr>lat = 0, lng = 0\<rparr> \<lparr>lat = 0, lng = 1\<rparr> = 90"
proof -
  have "0 < sin (pi / 180)"
    by (rule sin_gt_zero) (use pi_gt_zero in simp_all)
  then have "js_atan2 (sin (pi / 180)) 0 = pi / 2"
    by (simp add: js_atan2_def)
  moreover have "pi / 2 * 180 / pi = 90"
    by simp
  ultimately have deg: "js_atan2 (sin (pi / 180)) 0 * 180 / pi = 90"
    by (simp only:)
  have "\<lfloor>(450::real) / 360\<rfloor> = 1"
    by (simp add: floor_eq_iff)
  then have "js_rem 450 360 = 90"
    by (simp add: js_rem_def js_trunc_def)
  with deg show ?thesis
    by (simp add: bearingDeg_def toRad_def Let_def)
qed

section \<open>Properties of the render and of the click handlers\<close>

lemma sample_finds:
  "find (\<lambda>t. tower_id t = towerAId sampleLink3) (towers samplePlanner) = Some (towers samplePlanner ! 0)"
  "find (\<lambda>t. tower_id t = towerBId sampleLink3) (towers samplePlanner) = Some (towers samplePlanner ! 1)"
  by (simp_all add: samplePlanner_def sampleLink3_def)

lemma degenerate_finds:
  "find (\<lambda>t. tower_id t = towerAId sampleLink3) (towers degeneratePlanner) = Some (towers degeneratePlanner ! 0)"
  "find (\<lambda>t. tower_id t = towerBId sampleLink3) (towers degeneratePlanner) = Some (towers degeneratePlanner ! 1)"
  by (simp_all add: degeneratePlanner_def sampleLink3_def)

text \<open>
  C3: when both towers of the link are found, the centre \<open>(cx, cy)\<close> written to
  the ellipse is the projection of the midpoint minus the pixel origin of the map, the
  midpoint being the arithmetic mean of the two latitudes and of the two longitudes.
\<close>

theorem ellipse_center:
  assumes "find (\<lambda>t. tower_id t = towerAId link) (towers lp) = Some towerA"
    and "find (\<lambda>t. tower_id t = towerBId link) (towers lp) = Some towerB"
  shows "ellipseAttr attr_cx (drawFresnelZone m lp doc link) =
      Some (Fin (point_x (latLngToLayerPoint m (midpoint_spec (latlng towerA) (latlng towerB)))
                   - point_x (getPixelOrigin m))) \<and>
    ellipseAttr attr_cy (drawFresnelZone m lp doc link) =
      Some (Fin (point_y (latLngToLayerPoint m (midpoint_spec (latlng towerA) (latlng towerB)))
                   - point_y (getPixelOrigin m)))"
  by (simp add: ellipseAttr_def draw_getEllipse [OF assms] setEllipseAttributes_def)

theorem ellipse_center_witness:
  "find (\<lambda>t. tower_id t = towerAId sampleLink3) (towers samplePlanner) =
     Some (towers samplePlanner ! 0) \<and>
   find (\<lambda>t. tower_id t = towerBId sampleLink3) (towers samplePlanner) =
     Some (towers samplePlanner ! 1) \<and>
   ellipseAttr attr_cx (drawFresnelZone sampleMap samplePlanner \<lparr>map_children = []\<rparr> sampleLink3) =
     Some (Fin 28) \<and>
   ellipseAttr attr_cy (drawFresnelZone sampleMap samplePlanner \<lparr>map_children = []\<rparr> sampleLink3) =
     Some (Fin (- 50))"
  using ellipse_center [OF sample_finds, of sampleMap "\<lparr>map_children = []\<rparr>"] sample_finds
  by (simp add: samplePlanner_def sampleMap_def midpoint_spec_def placeP_def placeQ_def)

text \<open>
  C4: when both towers of the link are found, the ellipse is rotated about the centre
  written to it by the bearing minus 90 degrees. The bearing is the reference bearing
  from tower A to tower B, it lies in the interval from 0 (included) to 360
  (excluded), and it is 0 for identical points. Due north is 0 and due east is 90.
\<close>

theorem ellipse_rotation:
  assumes "find (\<lambda>t. tower_id t = towerAId link) (towers lp) = Some towerA"
    and "find (\<lambda>t. tower_id t = towerBId link) (towers lp) = Some towerB"
  shows "ellipseAttr attr_transform (drawFresnelZone m lp doc link) =
      Some (Rotate (Fin (initialBearing_spec (latlng towerA) (latlng towerB) - 90))
         (Fin (point_x (latLngToLayerPoint m (midpoint_spec (latlng towerA) (latlng towerB)))
                 - point_x (getPixelOrigin m)))
         (Fin (point_y (latLngToLayerPoint m (midpoint_spec (latlng towerA) (latlng towerB)))
                 - point_y (getPixelOrigin m)))) \<and>
    0 \<le> initialBearing_spec (latlng towerA) (latlng towerB) \<and>
    initialBearing_spec (latlng towerA) (latlng towerB) < 360 \<and>
    initialBearing_spec (latlng towerA) (latlng towerA) = 0 \<and>
    bearingDeg \<lparr>lat = 0, lng = 0\<rparr> \<lparr>lat = 1, lng = 0\<rparr> = 0 \<and>
    bearingDeg \<lparr>lat = 0, lng = 0\<rparr> \<lparr>lat = 0, lng = 1\<rparr> = 90"
proof -
  have "ellipseAttr attr_transform (drawFresnelZone m lp doc link) =
      Some (Rotate (Fin (initialBearing_spec (latlng towerA) (latlng towerB) - 90))
         (Fin (point_x (latLngToLayerPoint m (midpoint_spec (latlng towerA) (latlng towerB)))
                 - point_x (getPixelOrigin m)))
         (Fin (point_y (latLngToLayerPoint m (midpoint_spec (latlng towerA) (latlng towerB)))
                 - point_y (getPixelOrigin m))))"
    by (simp add: ellipseAttr_def draw_getEllipse [OF assms] setEllipseAttributes_def
          bearingDeg_spec)
  with initialBearing_spec_range [of "latlng towerA" "latlng towerB"]
    initialBearing_spec_same [of "latlng towerA"] bearingDeg_north bearingDeg_east
  show ?thesis
    by blast
qed

theorem ellipse_rotation_witness:
  "find (\<lambda>t. tower_id t = towerAId sampleLink3) (towers samplePlanner) =
     Some (towers samplePlanner ! 0) \<and>
   find (\<lambda>t. tower_id t = towerBId sampleLink3) (towers samplePlanner) =
     Some (towers samplePlanner ! 1) \<and>
   ellipseAttr attr_transform
     (drawFresnelZone sampleMap samplePlanner \<lparr>map_children = []\<rparr> sampleLink3) =
     Some (Rotate (Fin 0) (Fin 28) (Fin (- 50)))"
  using ellipse_rotation [OF sample_finds, of sampleMap "\<lparr>map_children = []\<rparr>"] sample_finds
    bearingDeg_east
  by (simp add: samplePlanner_def sampleMap_def midpoint_spec_def placeP_def placeQ_def
      bearingDeg_spec [symmetric])

lemma setEllipseAttributes_sel:
  "attr_cx (setEllipseAttributes cx cy rx ry angle e) = Some cx"
  "attr_cy (setEllipseAttributes cx cy rx ry angle e) = Some cy"
  "attr_rx (setEllipseAttributes cx cy rx ry angle e) = Some rx"
  "attr_ry (setEllipseAttributes cx cy rx ry angle e) = Some ry"
  "attr_transform (setEllipseAttributes cx cy rx ry angle e) = Some (Rotate angle cx cy)"
  "ellipse_id (setEllipseAttributes cx cy rx ry angle e) = ellipse_id e"
  by (simp_all add: setEllipseAttributes_def)

lemma calculateMaxFresnelRadius_cases:
  "calculateMaxFresnelRadius frequencyHz (Fin d) = NaN \<or>
   (\<exists>r. calculateMaxFresnelRadius frequencyHz (Fin d) = Fin r \<and> (d \<le> 0 \<longrightarrow> r = 0))"
proof (cases frequencyHz)
  case (Fin f)
  then show ?thesis
    by (simp add: calculateMaxFresnelRadius_Fin)
next
  case PInf
  then show ?thesis
    by (simp add: calculateMaxFresnelRadius_def SPEED_OF_LIGHT_def)
next
  case NInf
  then show ?thesis
    by (simp add: calculateMaxFresnelRadius_def)
next
  case NaN
  then show ?thesis
    by (simp add: calculateMaxFresnelRadius_def SPEED_OF_LIGHT_def)
qed

lemma pixel_scale:
  assumes "l \<noteq> 0"
  shows "js_div (calculateMaxFresnelRadius frequencyHz (Fin d)) (js_div (Fin d) (Fin l)) =
         js_mul (calculateMaxFresnelRadius frequencyHz (Fin d)) (js_div (Fin l) (Fin d))"
proof -
  consider "calculateMaxFresnelRadius frequencyHz (Fin d) = NaN"
    | r where "calculateMaxFresnelRadius frequencyHz (Fin d) = Fin r" and "d \<le> 0 \<longrightarrow> r = 0"
    using calculateMaxFresnelRadius_cases by blast
  then show ?thesis
  proof cases
    case 1
    then show ?thesis by simp
  next
    case 2
    with assms show ?thesis
      by (cases "d = 0") auto
  qed
qed

text \<open>
  C5: when both towers of the link are found and the pixel distance between their
  projections is not zero, \<open>ry\<close> is the maximal Fresnel radius times the scale
  \<open>lengthPixels / distanceMeters\<close>, in the arithmetic of the language, and \<open>rx\<close>
  is \<open>lengthPixels / 2\<close>.
\<close>

theorem ellipse_semi_axes:
  assumes "find (\<lambda>t. tower_id t = towerAId link) (towers lp) = Some towerA"
    and "find (\<lambda>t. tower_id t = towerBId link) (towers lp) = Some towerB"
    and "pointDistanceTo m (latLngToLayerPoint m (latlng towerA))
           (latLngToLayerPoint m (latlng towerB)) \<noteq> 0"
  shows "ellipseAttr attr_ry (drawFresnelZone m lp doc link) =
      Some (js_mul
        (calculateMaxFresnelRadius (js_mul (frequencyGHz towerA) (Fin 1000000000))
           (Fin (latLngDistanceTo m (latlng towerA) (latlng towerB))))
        (js_div
           (Fin (pointDistanceTo m (latLngToLayerPoint m (latlng towerA))
                   (latLngToLayerPoint m (latlng towerB))))
           (Fin (latLngDistanceTo m (latlng towerA) (latlng towerB))))) \<and>
    ellipseAttr attr_rx (drawFresnelZone m lp doc link) =
      Some (Fin (pointDistanceTo m (latLngToLayerPoint m (latlng towerA))
                   (latLngToLayerPoint m (latlng towerB)) / 2))"
proof -
  note e = draw_getEllipse [OF assms(1,2), of m doc]
  have "ellipseAttr attr_ry (drawFresnelZone m lp doc link) =
      Some (js_div
        (calculateMaxFresnelRadius (js_mul (frequencyGHz towerA) (Fin 1000000000))
           (Fin (latLngDistanceTo m (latlng towerA) (latlng towerB))))
        (js_div (Fin (latLngDistanceTo m (latlng towerA) (latlng towerB)))
           (Fin (pointDistanceTo m (latLngToLayerPoint m (latlng towerA))
                   (latLngToLayerPoint m (latlng towerB))))))"
    by (simp only: ellipseAttr_def e Option.bind.simps setEllipseAttributes_sel)
  moreover have "ellipseAttr attr_rx (drawFresnelZone m lp doc link) =
      Some (js_div (Fin (pointDistanceTo m (latLngToLayerPoint m (latlng towerA))
                   (latLngToLayerPoint m (latlng towerB)))) (Fin 2))"
    by (simp only: ellipseAttr_def e Option.bind.simps setEllipseAttributes_sel)
  ultimately show ?thesis
    by (simp only: pixel_scale [OF assms(3)]) simp
qed

lemma sample_length:
  "pointDistanceTo sampleMap (latLngToLayerPoint sampleMap placeP)
     (latLngToLayerPoint sampleMap placeQ) = 256"
proof -
  have "sqrt ((256::real)\<^sup>2) = 256"
    by (simp only: real_sqrt_abs abs_numeral)
  then show ?thesis
    by (simp add: sampleMap_def placeP_def placeQ_def)
qed

theorem ellipse_semi_axes_witness:
  "find (\<lambda>t. tower_id t = towerAId sampleLink3) (towers samplePlanner) =
     Some (towers samplePlanner ! 0) \<and>
   find (\<lambda>t. tower_id t = towerBId sampleLink3) (towers samplePlanner) =
     Some (towers samplePlanner ! 1) \<and>
   pointDistanceTo sampleMap (latLngToLayerPoint sampleMap placeP)
     (latLngToLayerPoint sampleMap placeQ) \<noteq> 0 \<and>
   ellipseAttr attr_rx
     (drawFresnelZone sampleMap samplePlanner \<lparr>map_children = []\<rparr> sampleLink3) =
     Some (Fin 128) \<and>
   ellipseAttr attr_ry
     (drawFresnelZone sampleMap samplePlanner \<lparr>map_children = []\<rparr> sampleLink3) =
     Some (js_mul (calculateMaxFresnelRadius (Fin 5800000000) (Fin 111195))
             (js_div (Fin 256) (Fin 111195)))"
proof -
  have len: "pointDistanceTo sampleMap (latLngToLayerPoint sampleMap (latlng (towers samplePlanner ! 0)))
     (latLngToLayerPoint sampleMap (latlng (towers samplePlanner ! 1))) \<noteq> 0"
    using sample_length by (simp add: samplePlanner_def)
  have dist: "latLngDistanceTo sampleMap placeP placeQ = 111195"
    by (simp add: sampleMap_def placeP_def placeQ_def)
  show ?thesis
    using ellipse_semi_axes [OF sample_finds len, of "\<lparr>map_children = []\<rparr>"] sample_finds
      sample_length dist
    by (simp add: samplePlanner_def)
qed


lemma draw_degenerate:
  assumes "find (\<lambda>t. tower_id t = towerAId link) (towers lp) = Some towerA"
    and "find (\<lambda>t. tower_id t = towerBId link) (towers lp) = Some towerB"
    and "latLngDistanceTo m (latlng towerA) (latlng towerB) = 0"
    and "pointDistanceTo m (latLngToLayerPoint m (latlng towerA))
           (latLngToLayerPoint m (latlng towerB)) = 0"
  shows "ellipseAttr attr_ry (drawFresnelZone m lp doc link) = Some NaN"
  by (simp add: ellipseAttr_def draw_getEllipse [OF assms(1,2)] setEllipseAttributes_sel
      assms(3,4) calculateMaxFresnelRadius_def)

text \<open>
  C2, at two towers placed on the same point and linked (scenario 2): the render
  writes \<open>NaN\<close> to the attribute \<open>ry\<close> of the ellipse. The radius is 0 by the guard
  of \<open>calculateMaxFresnelRadius\<close>, the scale is \<open>0 / 0\<close>, which no guard covers.
\<close>

theorem degenerate_link_ry_NaN:
  "ellipseAttr attr_ry
     (drawFresnelZone sampleMap degeneratePlanner \<lparr>map_children = []\<rparr> sampleLink3) = Some NaN"
  by (rule draw_degenerate [OF degenerate_finds])
     (simp_all add: degeneratePlanner_def sampleMap_def)

lemma find_map_frequency_other:
  "a \<noteq> b \<Longrightarrow>
   find (\<lambda>t. tower_id t = a)
     (map (\<lambda>t. if tower_id t = b then t\<lparr>frequencyGHz := g\<rparr> else t) ts) =
   find (\<lambda>t. tower_id t = a) ts"
  by (induction ts) auto

lemma find_map_frequency_same:
  "find (\<lambda>t. tower_id t = b)
     (map (\<lambda>t. if tower_id t = b then t\<lparr>frequencyGHz := g\<rparr> else t) ts) =
   map_option (\<lambda>t. t\<lparr>frequencyGHz := g\<rparr>) (find (\<lambda>t. tower_id t = b) ts)"
  by (induction ts) auto

text \<open>
  C10: for a link between two different towers, writing any frequency to tower B
  leaves the render of the link unchanged: the same document results, with the same
  centre, semi-axes and rotation of the ellipse.
\<close>

theorem towerB_frequency_independent:
  "towerAId link \<noteq> towerBId link \<Longrightarrow>
   drawFresnelZone m
     (lp\<lparr>towers := map (\<lambda>t. if tower_id t = towerBId link then t\<lparr>frequencyGHz := g\<rparr> else t)
                       (towers lp)\<rparr>) doc link =
   drawFresnelZone m lp doc link"
  by (simp add: drawFresnelZone_def find_map_frequency_other find_map_frequency_same
      split: option.splits)

theorem towerB_frequency_independent_witness:
  "towerAId sampleLink3 \<noteq> towerBId sampleLink3 \<and>
   drawFresnelZone sampleMap
     (samplePlanner\<lparr>towers :=
        map (\<lambda>t. if tower_id t = towerBId sampleLink3 then t\<lparr>frequencyGHz := Fin (24 / 10)\<rparr> else t)
          (towers samplePlanner)\<rparr>) \<lparr>map_children = []\<rparr> sampleLink3 =
   drawFresnelZone sampleMap samplePlanner \<lparr>map_children = []\<rparr> sampleLink3"
  using towerB_frequency_independent [where link = sampleLink3 and m = sampleMap
      and lp = samplePlanner and g = "Fin (24 / 10)" and doc = "\<lparr>map_children = []\<rparr>"]
  by (simp add: sampleLink3_def)

lemma editFrequency_fields:
  "links (editFrequency newFreq tid lp) = links lp"
  "selectedLink (editFrequency newFreq tid lp) = selectedLink lp"
  "activeLinkPhase (editFrequency newFreq tid lp) = activeLinkPhase lp"
  "nextId (editFrequency newFreq tid lp) = nextId lp"
  by (simp_all add: editFrequency_def setTower_def split: option.splits)

text \<open>
  C7: when a first tower is pending and the second tower clicked has, after the
  frequency edit of the click, a frequency different from the first tower's, the
  click returns normally, the links, the selected link and the counter are unchanged
  and the pending first tower is cleared.
\<close>

theorem frequency_mismatch_rejected:
  assumes "activeLinkPhase lp = Some a"
    and "a \<noteq> b"
    and "find (\<lambda>t. tower_id t = a) (towers (editFrequency newFreq b lp)) = Some towerA"
    and "find (\<lambda>t. tower_id t = b) (towers (editFrequency newFreq b lp)) = Some towerB"
    and "\<not> js_strict_eq (frequencyGHz towerA) (frequencyGHz towerB)"
  shows "\<exists>lp'. handleTowerClick newFreq b lp = Inr lp' \<and>
      links lp' = links lp \<and>
      selectedLink lp' = selectedLink lp \<and>
      nextId lp' = nextId lp \<and>
      activeLinkPhase lp' = None"
  using assms
  by (simp add: handleTowerClick_def Let_def editFrequency_fields setTower_def)

theorem frequency_mismatch_rejected_witness:
  "activeLinkPhase pendingPlanner = Some (TowerId 1) \<and>
   \<not> js_strict_eq (Fin (58 / 10)) (Fin (24 / 10)) \<and>
   (\<exists>lp'. handleTowerClick (Some (Fin (24 / 10))) (TowerId 2) pendingPlanner = Inr lp' \<and>
      links lp' = [] \<and> selectedLink lp' = None \<and> nextId lp' = 3 \<and>
      activeLinkPhase lp' = None)"
proof -
  have a: "find (\<lambda>t. tower_id t = TowerId 1)
      (towers (editFrequency (Some (Fin (24 / 10))) (TowerId 2) pendingPlanner)) =
      Some \<lparr>tower_id = TowerId 1, latlng = placeP, frequencyGHz = Fin (58 / 10),
            marker_borderColor = ''yellow''\<rparr>"
    by (simp add: editFrequency_def setTower_def pendingPlanner_def js_isNaN_def)
  have b: "find (\<lambda>t. tower_id t = TowerId 2)
      (towers (editFrequency (Some (Fin (24 / 10))) (TowerId 2) pendingPlanner)) =
      Some \<lparr>tower_id = TowerId 2, latlng = placeQ, frequencyGHz = Fin (24 / 10),
            marker_borderColor = []\<rparr>"
    by (simp add: editFrequency_def setTower_def pendingPlanner_def js_isNaN_def)
  have p: "activeLinkPhase pendingPlanner = Some (TowerId 1)"
    by (simp add: pendingPlanner_def)
  have ne: "\<not> js_strict_eq (Fin (58 / 10)) (Fin (24 / 10))"
    by (simp add: js_strict_eq_def)
  from frequency_mismatch_rejected [OF p _ a b] ne p show ?thesis
    by (simp add: pendingPlanner_def)
qed

section \<open>Sessions: the sample states, and the single ellipse\<close>

lemma sample_reached:
  "run sampleEvents initialApp = Inr \<lparr>planner = samplePlanner, document = \<lparr>map_children = []\<rparr>\<rparr>"
  by (simp add: sampleEvents_def initialApp_def samplePlanner_def handleMapClick_def
      addTower_def handleTowerClick_def editFrequency_def setTower_def createLink_def
      js_strict_eq_def Let_def)

lemma degenerate_reached:
  "run degenerateEvents initialApp =
     Inr \<lparr>planner = degeneratePlanner, document = \<lparr>map_children = []\<rparr>\<rparr>"
  by (simp add: degenerateEvents_def initialApp_def degeneratePlanner_def handleMapClick_def
      addTower_def handleTowerClick_def editFrequency_def setTower_def createLink_def
      js_strict_eq_def Let_def)

lemma pending_reached:
  "run pendingEvents initialApp =
     Inr \<lparr>planner = pendingPlanner, document = \<lparr>map_children = []\<rparr>\<rparr>"
  by (simp add: pendingEvents_def initialApp_def pendingPlanner_def handleMapClick_def
      addTower_def handleTowerClick_def editFrequency_def setTower_def createLink_def
      js_strict_eq_def Let_def)

lemma draw_towers_cong:
  "towers lp = towers lp' \<Longrightarrow> drawFresnelZone m lp doc link = drawFresnelZone m lp' doc link"
  by (simp add: drawFresnelZone_def)

lemma selected_reached:
  "handleLinkClick sampleMap (LinkId 3) \<lparr>planner = samplePlanner, document = \<lparr>map_children = []\<rparr>\<rparr> =
     Inr sampleSelected"
  by (simp add: handleLinkClick_def sampleSelected_def sampleSelectedPlanner_def Let_def
      setLink_def sampleLink3_def samplePlanner_def)

lemma draw_count_one:
  assumes "ellipseCount doc = 1"
  shows "ellipseCount (drawFresnelZone m lp doc link) = 1"
proof (cases "find (\<lambda>t. tower_id t = towerAId link) (towers lp) = None \<or>
    find (\<lambda>t. tower_id t = towerBId link) (towers lp) = None")
  case True
  with assms show ?thesis
    by (simp add: draw_missing)
next
  case False
  then obtain towerA towerB
    where "find (\<lambda>t. tower_id t = towerAId link) (towers lp) = Some towerA"
      and "find (\<lambda>t. tower_id t = towerBId link) (towers lp) = Some towerB"
    by auto
  with assms show ?thesis
    by (simp add: draw_count)
qed

lemma step_count_one:
  "ellipseCount (document app) = 1 \<Longrightarrow> step m ev app = Inr app' \<Longrightarrow>
     ellipseCount (document app') = 1"
  by (cases ev)
    (auto simp: handleLinkClick_def handleMoveEnd_def Let_def draw_count_one
      split: option.splits sum.splits)

lemma run_count_one:
  "ellipseCount (document app) = 1 \<Longrightarrow> run evs app = Inr app' \<Longrightarrow>
     ellipseCount (document app') = 1"
proof (induction evs arbitrary: app)
  case Nil
  then show ?case by simp
next
  case (Cons mev evs)
  obtain m ev where mev: "mev = (m, ev)"
    by (cases mev)
  from Cons.prems(2) obtain app1 where s: "step m ev app = Inr app1" and r: "run evs app1 = Inr app'"
    by (auto simp: mev split: sum.splits)
  from Cons.prems(1) s have "ellipseCount (document app1) = 1"
    by (rule step_count_one)
  then show ?case
    using r by (rule Cons.IH)
qed


lemma getEllipse_count_one: "ellipseCount doc = 1 \<Longrightarrow> \<exists>e. getEllipse doc = Some e"
  using getEllipse_None_count [of doc] by (cases "getEllipse doc") simp_all

lemma find_link_restyled_other:
  "a \<noteq> b \<Longrightarrow>
   find (\<lambda>l. link_id l = a)
     (update_first (\<lambda>l. link_id l = b) (\<lambda>l. l\<lparr>linkLine_className := c\<rparr>) ls) =
   find (\<lambda>l. link_id l = a) ls"
  by (induction ls) auto

lemma find_link_restyled:
  "find (\<lambda>l. link_id l = a)
     (update_first (\<lambda>l. link_id l = a) (\<lambda>l. l\<lparr>linkLine_className := c\<rparr>) ls) =
   map_option (\<lambda>l. l\<lparr>linkLine_className := c\<rparr>) (find (\<lambda>l. link_id l = a) ls)"
  by (induction ls) auto

lemma length_update_first: "length (update_first P f xs) = length xs"
  by (induction xs) auto

lemma render_length_existing:
  assumes "getEllipse doc = Some e"
  shows "length (allEllipses (mutateOverlay showOverlay
      (mutateEllipse f (ensureEllipse (ensureOverlay doc))))) = length (allEllipses doc)"
proof -
  have "getEllipse (ensureOverlay doc) = Some e"
    using assms by (simp add: getEllipse_def allEllipses_ensureOverlay)
  then have "ensureEllipse (ensureOverlay doc) = ensureOverlay doc"
    by (simp add: ensureEllipse_def)
  then show ?thesis
    by (simp add: allEllipses_mutateOverlay svg_children_showOverlay allEllipses_mutateEllipse
          length_update_first allEllipses_ensureOverlay)
qed

lemma draw_length_existing:
  assumes "find (\<lambda>t. tower_id t = towerAId link) (towers lp) = Some towerA"
    and "find (\<lambda>t. tower_id t = towerBId link) (towers lp) = Some towerB"
    and "getEllipse doc = Some e"
  shows "length (allEllipses (drawFresnelZone m lp doc link)) = length (allEllipses doc)"
  unfolding drawFresnelZone_def Let_def assms(1,2)
  by (simp only: prod.case option.case render_length_existing [OF assms(3)])

lemma sampleSelected_count: "ellipseCount (document sampleSelected) = 1"
proof -
  have "find (\<lambda>t. tower_id t = towerAId sampleLink3) (towers sampleSelectedPlanner) =
      Some (towers samplePlanner ! 0)"
    and "find (\<lambda>t. tower_id t = towerBId sampleLink3) (towers sampleSelectedPlanner) =
      Some (towers samplePlanner ! 1)"
    by (simp_all add: sampleSelectedPlanner_def samplePlanner_def sampleLink3_def)
  then have "ellipseCount (drawFresnelZone sampleMap sampleSelectedPlanner \<lparr>map_children = []\<rparr>
      sampleLink3) = (if getEllipse \<lparr>map_children = []\<rparr> = None then 1
        else ellipseCount \<lparr>map_children = []\<rparr>)"
    by (rule draw_count)
  then show ?thesis
    by (simp add: sampleSelected_def getEllipse_def allEllipses_def)
qed

text \<open>
  C8: in a state with exactly one ellipse, where link L1 is selected, a click on
  another link L2 whose towers are found returns normally. No ellipse is added: the
  document has as many ellipses as before, exactly one. Read back from that ellipse,
  \<open>cx\<close>, \<open>cy\<close>, \<open>rx\<close>, \<open>ry\<close> and \<open>transform\<close> are the values of L2: the projected
  midpoint of its towers minus the pixel origin, half the pixel length, the radius
  over meters per pixel, and the rotation by the bearing minus 90 about the centre.
  L2 is the selected link and has the highlight class, L1 has the plain class again;
  and after any further events the document still has exactly one ellipse.
\<close>

theorem second_selection_reuses_ellipse:
  assumes cnt: "ellipseCount (document app) = 1"
    and sel: "selectedLink (planner app) = Some l1"
    and f1: "find (\<lambda>l. link_id l = l1) (links (planner app)) = Some link1"
    and f2: "find (\<lambda>l. link_id l = l2) (links (planner app)) = Some link2"
    and ne: "l1 \<noteq> l2"
    and tA: "find (\<lambda>t. tower_id t = towerAId link2) (towers (planner app)) = Some towerA"
    and tB: "find (\<lambda>t. tower_id t = towerBId link2) (towers (planner app)) = Some towerB"
    and later: "run ((m, LinkClick l2) # evs) app = Inr app''"
  shows "\<exists>app'. handleLinkClick m l2 app = Inr app' \<and>
      ellipseCount (document app') = 1 \<and>
      length (allEllipses (document app')) = length (allEllipses (document app)) \<and>
      ellipseAttr attr_cx (document app') =
        Some (Fin (point_x (latLngToLayerPoint m (midpoint_spec (latlng towerA) (latlng towerB)))
                     - point_x (getPixelOrigin m))) \<and>
      ellipseAttr attr_cy (document app') =
        Some (Fin (point_y (latLngToLayerPoint m (midpoint_spec (latlng towerA) (latlng towerB)))
                     - point_y (getPixelOrigin m))) \<and>
      ellipseAttr attr_rx (document app') =
        Some (Fin (pointDistanceTo m (latLngToLayerPoint m (latlng towerA))
                     (latLngToLayerPoint m (latlng towerB)) / 2)) \<and>
      ellipseAttr attr_ry (document app') =
        Some (js_div
          (calculateMaxFresnelRadius (js_mul (frequencyGHz towerA) (Fin 1000000000))
             (Fin (latLngDistanceTo m (latlng towerA) (latlng towerB))))
          (js_div (Fin (latLngDistanceTo m (latlng towerA) (latlng towerB)))
             (Fin (pointDistanceTo m (latLngToLayerPoint m (latlng towerA))
                     (latLngToLayerPoint m (latlng towerB)))))) \<and>
      ellipseAttr attr_transform (document app') =
        Some (Rotate (Fin (bearingDeg (latlng towerA) (latlng towerB) - 90))
           (Fin (point_x (latLngToLayerPoint m (midpoint_spec (latlng towerA) (latlng towerB)))
                   - point_x (getPixelOrigin m)))
           (Fin (point_y (latLngToLayerPoint m (midpoint_spec (latlng towerA) (latlng towerB)))
                   - point_y (getPixelOrigin m)))) \<and>
      selectedLink (planner app') = Some l2 \<and>
      map_option linkLine_className (find (\<lambda>l. link_id l = l1) (links (planner app'))) =
        Some ''leaflet-link-line'' \<and>
      map_option linkLine_className (find (\<lambda>l. link_id l = l2) (links (planner app'))) =
        Some ''leaflet-link-line-selected'' \<and>
      ellipseCount (document app'') = 1"
proof -
  define lp1 where
    "lp1 = setLink l1 (\<lambda>l. l\<lparr>linkLine_className := ''leaflet-link-line''\<rparr>) (planner app)"
  define lp2 where
    "lp2 = setLink l2 (\<lambda>l. l\<lparr>linkLine_className := ''leaflet-link-line-selected''\<rparr>)
             (lp1\<lparr>selectedLink := Some l2\<rparr>)"
  define app' where
    "app' = \<lparr>planner = lp2, document = drawFresnelZone m lp2 (document app) link2\<rparr>"
  have click: "handleLinkClick m l2 app = Inr app'"
    by (simp add: handleLinkClick_def f2 sel Let_def lp1_def lp2_def app'_def)
  have tw: "towers lp2 = towers (planner app)"
    by (simp add: lp2_def lp1_def setLink_def)
  have tA2: "find (\<lambda>t. tower_id t = towerAId link2) (towers lp2) = Some towerA"
    and tB2: "find (\<lambda>t. tower_id t = towerBId link2) (towers lp2) = Some towerB"
    using tA tB by (simp_all add: tw)
  have doc: "document app' = drawFresnelZone m lp2 (document app) link2"
    by (simp add: app'_def)
  have one: "ellipseCount (document app') = 1"
    using cnt by (simp add: app'_def draw_count_one)
  from cnt obtain e where e: "getEllipse (document app) = Some e"
    using getEllipse_count_one by blast
  have len: "length (allEllipses (document app')) = length (allEllipses (document app))"
    unfolding doc by (rule draw_length_existing [OF tA2 tB2 e])
  note g = draw_getEllipse [OF tA2 tB2, of m "document app"]
  have cx: "ellipseAttr attr_cx (document app') =
        Some (Fin (point_x (latLngToLayerPoint m (midpoint_spec (latlng towerA) (latlng towerB)))
                     - point_x (getPixelOrigin m)))"
    and cy: "ellipseAttr attr_cy (document app') =
        Some (Fin (point_y (latLngToLayerPoint m (midpoint_spec (latlng towerA) (latlng towerB)))
                     - point_y (getPixelOrigin m)))"
    and ry: "ellipseAttr attr_ry (document app') =
        Some (js_div
          (calculateMaxFresnelRadius (js_mul (frequencyGHz towerA) (Fin 1000000000))
             (Fin (latLngDistanceTo m (latlng towerA) (latlng towerB))))
          (js_div (Fin (latLngDistanceTo m (latlng towerA) (latlng towerB)))
             (Fin (pointDistanceTo m (latLngToLayerPoint m (latlng towerA))
                     (latLngToLayerPoint m (latlng towerB))))))"
    and tr: "ellipseAttr attr_transform (document app') =
        Some (Rotate (Fin (bearingDeg (latlng towerA) (latlng towerB) - 90))
           (Fin (point_x (latLngToLayerPoint m (midpoint_spec (latlng towerA) (latlng towerB)))
                   - point_x (getPixelOrigin m)))
           (Fin (point_y (latLngToLayerPoint m (midpoint_spec (latlng towerA) (latlng towerB)))
                   - point_y (getPixelOrigin m))))"
    by (simp_all only: doc ellipseAttr_def g Option.bind.simps setEllipseAttributes_sel)
  have "ellipseAttr attr_rx (document app') =
        Some (js_div (Fin (pointDistanceTo m (latLngToLayerPoint m (latlng towerA))
                     (latLngToLayerPoint m (latlng towerB)))) (Fin 2))"
    by (simp only: doc ellipseAttr_def g Option.bind.simps setEllipseAttributes_sel)
  then have rx: "ellipseAttr attr_rx (document app') =
        Some (Fin (pointDistanceTo m (latLngToLayerPoint m (latlng towerA))
                     (latLngToLayerPoint m (latlng towerB)) / 2))"
    by simp
  have sel2: "selectedLink (planner app') = Some l2"
    by (simp add: app'_def lp2_def setLink_def)
  have first: "find (\<lambda>l. link_id l = l1) (links lp1) =
      Some (link1\<lparr>linkLine_className := ''leaflet-link-line''\<rparr>)"
    by (simp add: lp1_def setLink_def find_link_restyled f1)
  have second: "find (\<lambda>l. link_id l = l2) (links lp1) = Some link2"
    using ne by (simp add: lp1_def setLink_def find_link_restyled_other f2)
  have c1: "map_option linkLine_className (find (\<lambda>l. link_id l = l1) (links (planner app'))) =
      Some ''leaflet-link-line''"
    using ne by (simp add: app'_def lp2_def setLink_def find_link_restyled_other first)
  have c2: "map_option linkLine_className (find (\<lambda>l. link_id l = l2) (links (planner app'))) =
      Some ''leaflet-link-line-selected''"
    by (simp add: app'_def lp2_def setLink_def find_link_restyled second)
  from later click have "run evs app' = Inr app''"
    by simp
  with one have "ellipseCount (document app'') = 1"
    by (rule run_count_one)
  with click one len cx cy rx ry tr sel2 c1 c2 show ?thesis
    by blast
qed

theorem second_selection_reuses_ellipse_witness:
  "ellipseCount (document sampleSelected) = 1 \<and>
   selectedLink (planner sampleSelected) = Some (LinkId 3) \<and>
   (\<exists>app' app''.
      handleLinkClick sampleMap (LinkId 5) sampleSelected = Inr app' \<and>
      run [(sampleMap, LinkClick (LinkId 5)), (sampleMap, MoveEnd)] sampleSelected = Inr app'' \<and>
      ellipseCount (document app') = 1 \<and>
      ellipseAttr attr_cx (document app') = Some (Fin 156) \<and>
      ellipseAttr attr_cy (document app') = Some (Fin (- 178)) \<and>
      ellipseAttr attr_rx (document app') = Some (Fin 128) \<and>
      selectedLink (planner app') = Some (LinkId 5) \<and>
      map_option linkLine_className
        (find (\<lambda>l. link_id l = LinkId 3) (links (planner app'))) = Some ''leaflet-link-line'' \<and>
      ellipseCount (document app'') = 1)"
proof -
  have sel: "selectedLink (planner sampleSelected) = Some (LinkId 3)"
    by (simp add: sampleSelected_def sampleSelectedPlanner_def)
  have f1: "find (\<lambda>l. link_id l = LinkId 3) (links (planner sampleSelected)) =
      Some (links sampleSelectedPlanner ! 0)"
    by (simp add: sampleSelected_def sampleSelectedPlanner_def)
  have f2: "find (\<lambda>l. link_id l = LinkId 5) (links (planner sampleSelected)) =
      Some (links sampleSelectedPlanner ! 1)"
    by (simp add: sampleSelected_def sampleSelectedPlanner_def)
  have tA: "find (\<lambda>t. tower_id t = towerAId (links sampleSelectedPlanner ! 1))
      (towers (planner sampleSelected)) = Some (towers samplePlanner ! 1)"
    by (simp add: sampleSelected_def sampleSelectedPlanner_def samplePlanner_def)
  have tB: "find (\<lambda>t. tower_id t = towerBId (links sampleSelectedPlanner ! 1))
      (towers (planner sampleSelected)) = Some (towers samplePlanner ! 2)"
    by (simp add: sampleSelected_def sampleSelectedPlanner_def samplePlanner_def)
  have len: "pointDistanceTo sampleMap (latLngToLayerPoint sampleMap placeQ)
      (latLngToLayerPoint sampleMap placeR) = 256"
  proof -
    have "sqrt ((256::real)\<^sup>2) = 256"
      by (simp only: real_sqrt_abs abs_numeral)
    then show ?thesis
      by (simp add: sampleMap_def placeQ_def placeR_def)
  qed
  have mid: "latLngToLayerPoint sampleMap (midpoint_spec placeQ placeR) =
      \<lparr>point_x = 256, point_y = - 128\<rparr>"
    by (simp add: sampleMap_def midpoint_spec_def placeQ_def placeR_def)
  have org: "getPixelOrigin sampleMap = \<lparr>point_x = 100, point_y = 50\<rparr>"
    by (simp add: sampleMap_def)
  obtain app'' where later:
    "run [(sampleMap, LinkClick (LinkId 5)), (sampleMap, MoveEnd)] sampleSelected = Inr app''"
    by (simp add: handleLinkClick_def handleMoveEnd_def Let_def setLink_def f2
        sampleSelected_def sampleSelectedPlanner_def)
  from second_selection_reuses_ellipse [OF sampleSelected_count sel f1 f2 _ tA tB later]
    sampleSelected_count sel later len mid org
  show ?thesis
    by (auto simp: samplePlanner_def)
qed

lemma sampleSelected_shown: "ellipseShown (document sampleSelected)"
  by (simp add: sampleSelected_def sampleSelectedPlanner_def samplePlanner_def sampleLink3_def
      drawFresnelZone_def Let_def ensureOverlay_def ensureEllipse_def getOverlay_def
      getEllipse_def allEllipses_def newOverlay_def newEllipse_def isOverlay_def isEllipse_def
      mutateEllipse_def mutateOverlay_def showOverlay_def setEllipseAttributes_def
      ellipseShown_def)

lemma danglingLink_missing:
  "find (\<lambda>t. tower_id t = towerBId danglingLink) (towers sampleSelectedPlanner) = None"
  by (simp add: danglingLink_def sampleSelectedPlanner_def samplePlanner_def)

text \<open>
  C9, as stated, in the sample session after the click on L3, at a link whose second
  tower is missing: the render returns, and the ellipse drawn for L3 is still in the
  document and still shown.
\<close>

theorem stale_ellipse_stays_shown:
  "find (\<lambda>t. tower_id t = towerBId danglingLink) (towers sampleSelectedPlanner) = None \<and>
   ellipseShown
     (drawFresnelZone sampleMap sampleSelectedPlanner (document sampleSelected) danglingLink) \<and>
   ellipseCount
     (drawFresnelZone sampleMap sampleSelectedPlanner (document sampleSelected) danglingLink) = 1"
  using danglingLink_missing sampleSelected_shown sampleSelected_count
  by (simp add: draw_missing)

text \<open>
  C9, amended: when a tower of the link is missing from the collection,
  \<open>drawFresnelZone\<close> returns, raising and reporting nothing, with the document
  exactly as it was. This render creates, writes and shows no ellipse: an ellipse is
  shown afterwards only if one was shown before, and the number of ellipses is the
  same.
\<close>

theorem missing_tower_leaves_document:
  "find (\<lambda>t. tower_id t = towerAId link) (towers lp) = None \<or>
   find (\<lambda>t. tower_id t = towerBId link) (towers lp) = None \<Longrightarrow>
   drawFresnelZone m lp doc link = doc \<and>
   ellipseShown (drawFresnelZone m lp doc link) = ellipseShown doc \<and>
   ellipseCount (drawFresnelZone m lp doc link) = ellipseCount doc"
  by (simp add: draw_missing)

theorem missing_tower_leaves_document_witness:
  "find (\<lambda>t. tower_id t = towerBId danglingLink) (towers samplePlanner) = None \<and>
   drawFresnelZone sampleMap samplePlanner \<lparr>map_children = []\<rparr> danglingLink =
     \<lparr>map_children = []\<rparr> \<and>
   \<not> ellipseShown (drawFresnelZone sampleMap samplePlanner \<lparr>map_children = []\<rparr> danglingLink) \<and>
   ellipseCount (drawFresnelZone sampleMap samplePlanner \<lparr>map_children = []\<rparr> danglingLink) = 0"
  using missing_tower_leaves_document [where link = danglingLink and lp = samplePlanner
      and m = sampleMap and doc = "\<lparr>map_children = []\<rparr>"]
  by (simp add: samplePlanner_def danglingLink_def ellipseShown_def ellipseCount_def
      allEllipses_def)

lemma draw_count_le:
  assumes "ellipseCount doc \<le> 1"
  shows "ellipseCount (drawFresnelZone m lp doc link) \<le> 1"
proof (cases "find (\<lambda>t. tower_id t = towerAId link) (towers lp) = None \<or>
    find (\<lambda>t. tower_id t = towerBId link) (towers lp) = None")
  case True
  with assms show ?thesis
    by (simp add: draw_missing)
next
  case False
  then obtain towerA towerB
    where "find (\<lambda>t. tower_id t = towerAId link) (towers lp) = Some towerA"
      and "find (\<lambda>t. tower_id t = towerBId link) (towers lp) = Some towerB"
    by auto
  with assms show ?thesis
    by (simp add: draw_count)
qed

lemma step_count_le:
  "ellipseCount (document app) \<le> 1 \<Longrightarrow> step m ev app = Inr app' \<Longrightarrow>
     ellipseCount (document app') \<le> 1"
  by (cases ev)
    (auto simp del: One_nat_def simp: handleLinkClick_def handleMoveEnd_def Let_def
      draw_count_le split: option.splits sum.splits)

lemma run_count_le:
  "ellipseCount (document app) \<le> 1 \<Longrightarrow> run evs app = Inr app' \<Longrightarrow>
     ellipseCount (document app') \<le> 1"
proof (induction evs arbitrary: app)
  case Nil
  then show ?case by simp
next
  case (Cons mev evs)
  obtain m ev where mev: "mev = (m, ev)"
    by (cases mev)
  from Cons.prems(2) obtain app1 where s: "step m ev app = Inr app1" and r: "run evs app1 = Inr app'"
    by (auto simp: mev split: sum.splits)
  from Cons.prems(1) s have "ellipseCount (document app1) \<le> 1"
    by (rule step_count_le)
  then show ?case
    using r by (rule Cons.IH)
qed

lemma reachable_count_le:
  "run evs initialApp = Inr app \<Longrightarrow> ellipseCount (document app) \<le> 1"
  by (rule run_count_le [of initialApp]) (simp_all add: initialApp_def ellipseCount_def allEllipses_def)

text \<open>
  From page load on, a render whose two towers are found leaves exactly one ellipse
  in the document.
\<close>

lemma reachable_render_count_one:
  assumes "run evs initialApp = Inr app"
    and "find (\<lambda>t. tower_id t = towerAId link) (towers lp) = Some towerA"
    and "find (\<lambda>t. tower_id t = towerBId link) (towers lp) = Some towerB"
  shows "ellipseCount (drawFresnelZone m lp (document app) link) = 1"
proof (cases "getEllipse (document app)")
  case None
  with assms(2,3) show ?thesis
    by (simp add: draw_count)
next
  case (Some e)
  then have "ellipseCount (document app) \<noteq> 0"
    using getEllipse_None_count [of "document app"] by simp
  moreover from assms(1) have "ellipseCount (document app) \<le> 1"
    by (rule reachable_count_le)
  ultimately have "ellipseCount (document app) = 1"
    by simp
  with Some assms(2,3) show ?thesis
    by (simp add: draw_count)
qed

end
